theory Spec2Isabelle
  imports Complex_Main "HOL-Library.List_Lexorder" "HOL-Library.Char_ord" "HOL-Library.Multiset"
begin

section \<open>Run records and data frames\<close>

text \<open>
  A model of \<^verbatim>\<open>analysis/parameter_analysis.py\<close>. A cell of the pandas data frame is a
  float, an integer or a string, or it is missing (NaN), which is \<open>None\<close>. Floats are
  modelled as real numbers. A run is one row of the frame: its parameter cells and its
  metric cells, each by column name.

  Conventions. Every name in \<^verbatim>\<open>feature_cols\<close> is a column of the frame, as
  \<^verbatim>\<open>get_feature_cols\<close> ensures. Two cells are equal when they are the same value of the
  same type; the numbers of one numeric column have one type, that of the column. What
  the libraries compute (the regressor, the attribution, the sampler, matrix inversion,
  the t distribution, the text of a number) is a parameter of the function that uses it.
  Where the source would compute NaN from no data (the mean of no value, the standard
  deviation of one value) the model has the value HOL gives the division by zero; the
  source uses such a value in no comparison that this model makes.
\<close>

datatype pyval = Num real | IntV int | Str string

record run =
  params :: "string \<Rightarrow> pyval option"
  metrics :: "string \<Rightarrow> real option"

type_synonym dataframe = "run list"

text \<open>A column of the encoded table: its name and one float per row (\<open>None\<close> is NaN).\<close>

type_synonym column = "string \<times> real option list"

fun is_str :: "pyval option \<Rightarrow> bool" where
  "is_str (Some (Str s)) = True"
| "is_str v = False"

fun to_real :: "pyval \<Rightarrow> real" where
  "to_real (Num x) = x"
| "to_real (IntV i) = real_of_int i"
| "to_real (Str s) = 0"

fun str_text :: "pyval \<Rightarrow> string" where
  "str_text (Str s) = s"
| "str_text v = []"

text \<open>\<^verbatim>\<open>str(v)\<close>: a string is itself; the text of a number is Python's, a parameter.\<close>

fun py_str :: "(pyval \<Rightarrow> string) \<Rightarrow> pyval \<Rightarrow> string" where
  "py_str repr (Str s) = s"
| "py_str repr v = repr v"

definition col_cells :: "dataframe \<Rightarrow> string \<Rightarrow> pyval option list" where
  "col_cells df c = map (\<lambda>r. params r c) df"

text \<open>\<^verbatim>\<open>series.dropna()\<close>\<close>

definition dropna :: "'a option list \<Rightarrow> 'a list" where
  "dropna xs = map the (filter (\<lambda>x. x \<noteq> None) xs)"

text \<open>\<^verbatim>\<open>series.unique()\<close>: the distinct values in order of first appearance.\<close>

definition unique :: "'a list \<Rightarrow> 'a list" where
  "unique xs = rev (remdups (rev xs))"

text \<open>\<^verbatim>\<open>series.nunique()\<close>: the number of distinct values that are not missing.\<close>

definition nunique :: "'a option list \<Rightarrow> nat" where
  "nunique xs = length (unique (dropna xs))"

text \<open>
  \<^verbatim>\<open>pd.api.types.is_numeric_dtype(df[c])\<close>: a column has a numeric dtype when it holds
  no string; a column of missing values only is a float column.
\<close>

definition is_numeric_dtype :: "dataframe \<Rightarrow> string \<Rightarrow> bool" where
  "is_numeric_dtype df c = (\<forall>v \<in> set (col_cells df c). \<not> is_str v)"

text \<open>\<^verbatim>\<open>series.median()\<close> over the values that are not missing; NaN when there is none.\<close>

definition median :: "real list \<Rightarrow> real option" where
  "median xs =
     (if xs = [] then None
      else let s = sort xs; n = length s
           in Some (if odd n then s ! (n div 2)
                    else (s ! (n div 2 - 1) + s ! (n div 2)) / 2))"

text \<open>\<^verbatim>\<open>series.fillna(v)\<close>: filling with NaN leaves the missing values missing.\<close>

definition fillna :: "'a option \<Rightarrow> 'a option list \<Rightarrow> 'a option list" where
  "fillna v xs = map (\<lambda>x. case x of None \<Rightarrow> v | Some y \<Rightarrow> Some y) xs"

section \<open>Feature codec\<close>

text \<open>
  \<^verbatim>\<open>pd.get_dummies(df_enc[col], prefix=col, dummy_na=False)\<close>: one indicator column per
  distinct value, numbers first in increasing order and then strings in increasing
  order, named \<^verbatim>\<open>col_value\<close>; a missing cell is 0 in every indicator column.
\<close>

definition categories :: "pyval option list \<Rightarrow> pyval list" where
  "categories cells =
     (let vs = unique (dropna cells)
      in sort_key to_real (filter (\<lambda>v. \<not> is_str (Some v)) vs)
         @ sort_key str_text (filter (\<lambda>v. is_str (Some v)) vs))"

definition get_dummies :: "(pyval \<Rightarrow> string) \<Rightarrow> dataframe \<Rightarrow> string \<Rightarrow> column list" where
  "get_dummies repr df c =
     map (\<lambda>v. (c @ ''_'' @ py_str repr v,
               map (\<lambda>cell. Some (if cell = Some v then 1 else 0)) (col_cells df c)))
         (categories (col_cells df c))"

definition fill_median :: "column \<Rightarrow> column" where
  "fill_median col = (fst col, fillna (median (dropna (snd col))) (snd col))"

text \<open>
  \<^verbatim>\<open>encode_features\<close>: the numeric columns stay in the order of \<^verbatim>\<open>feature_cols\<close>, each
  object column is dropped and its indicator columns are appended at the end, then every
  numeric column has its missing values filled with its median.
\<close>

definition encode_features :: "(pyval \<Rightarrow> string) \<Rightarrow> dataframe \<Rightarrow> string list \<Rightarrow> column list" where
  "encode_features repr df feature_cols =
     (let numeric = map (\<lambda>c. (c, map (map_option to_real) (col_cells df c)))
                        (filter (is_numeric_dtype df) feature_cols);
          dummies = concat (map (get_dummies repr df)
                        (filter (\<lambda>c. \<not> is_numeric_dtype df c) feature_cols))
      in map fill_median (numeric @ dummies))"

section \<open>Surrogate training\<close>

text \<open>
  The start of \<^verbatim>\<open>phase2_shap\<close>, up to \<^verbatim>\<open>model.fit(X, y)\<close>: the table and the target
  vector handed to the regressor, or \<open>None\<close> when the phase returns without a model
  (\<^verbatim>\<open>X.empty or len(X) < 2 or X.shape[1] == 0\<close>).
\<close>

definition target_vector :: "dataframe \<Rightarrow> string \<Rightarrow> real list" where
  "target_vector df target = map (\<lambda>r. case metrics r target of None \<Rightarrow> 0 | Some v \<Rightarrow> v) df"

definition phase2_training_set ::
  "(pyval \<Rightarrow> string) \<Rightarrow> dataframe \<Rightarrow> string list \<Rightarrow> string \<Rightarrow> (column list \<times> real list) option" where
  "phase2_training_set repr df feature_cols target =
     (let X = encode_features repr df feature_cols;
          y = target_vector df target
      in if length df = 0 \<or> length X = 0 \<or> length df < 2 then None else Some (X, y))"

section \<open>Parameter-space inference\<close>

datatype spec = Categorical "string list" | IntRange int int | FloatRange real real

text \<open>\<^verbatim>\<open>int(x)\<close> truncates towards zero.\<close>

definition py_int :: "real \<Rightarrow> int" where
  "py_int x = (if 0 \<le> x then \<lfloor>x\<rfloor> else \<lceil>x\<rceil>)"

text \<open>
  \<^verbatim>\<open>(series == series.round().values).all()\<close>: a value equals its rounding exactly when
  it is a whole number, whichever way halves are rounded.
\<close>

definition all_whole :: "real list \<Rightarrow> bool" where
  "all_whole xs = list_all (\<lambda>x. x = real_of_int (round x)) xs"

text \<open>
  The body of the loop of \<^verbatim>\<open>_infer_param_space\<close> for one column: \<open>None\<close> when the
  column has no observed value (\<^verbatim>\<open>continue\<close>).
\<close>

definition infer_domain :: "(pyval \<Rightarrow> string) \<Rightarrow> dataframe \<Rightarrow> string \<Rightarrow> spec option" where
  "infer_domain repr df col =
     (let series = dropna (col_cells df col)
      in if length series = 0 then None
         else if \<not> is_numeric_dtype df col \<or> length (unique series) \<le> 5
           then Some (Categorical (sort (map (py_str repr) (unique series))))
         else if all_whole (map to_real series) \<and> length (unique series) \<le> 30
           then (let lo = py_int (Min (set (map to_real series)));
                     hi = py_int (Max (set (map to_real series)))
                 in Some (if lo < hi then IntRange lo hi
                          else Categorical [py_str repr (IntV lo)]))
         else (let lo = Min (set (map to_real series));
                   hi = Max (set (map to_real series))
               in Some (if lo < hi then FloatRange lo hi
                        else Categorical [py_str repr (Num lo)])))"

text \<open>
  \<^verbatim>\<open>_infer_param_space\<close>: the dictionary \<^verbatim>\<open>space\<close> as an association list in
  insertion order.
\<close>

definition infer_param_space ::
  "(pyval \<Rightarrow> string) \<Rightarrow> dataframe \<Rightarrow> string list \<Rightarrow> (string \<times> spec) list" where
  "infer_param_space repr df feature_cols =
     List.map_filter (\<lambda>col. map_option (Pair col) (infer_domain repr df col))
       (unique feature_cols)"

text \<open>
  The domain as the specification words it, for comparison with \<open>infer_domain\<close>:
  categorical with the sorted distinct observed values when the values are not numeric
  or at most 5 are distinct; otherwise integer(min, max) when all are whole numbers and
  at most 30 are distinct; otherwise real(min, max); a range whose ends are equal
  collapses to a categorical domain of one choice.
\<close>

definition collapse :: "(pyval \<Rightarrow> string) \<Rightarrow> spec \<Rightarrow> spec" where
  "collapse repr d =
     (case d of
        IntRange lo hi \<Rightarrow> if lo = hi then Categorical [py_str repr (IntV lo)] else d
      | FloatRange lo hi \<Rightarrow> if lo = hi then Categorical [py_str repr (Num lo)] else d
      | Categorical cs \<Rightarrow> d)"

definition spec_domain :: "(pyval \<Rightarrow> string) \<Rightarrow> dataframe \<Rightarrow> string \<Rightarrow> spec" where
  "spec_domain repr df col =
     (let observed = dropna (col_cells df col);
          distinct_values = card (set observed);
          numbers = to_real ` set observed
      in if (\<exists>v \<in> set (col_cells df col). is_str v) \<or> distinct_values \<le> 5
           then Categorical (sort (map (py_str repr) (remdups observed)))
         else collapse repr
           (if (\<forall>x \<in> numbers. x \<in> \<int>) \<and> distinct_values \<le> 30
              then IntRange (py_int (Min numbers)) (py_int (Max numbers))
            else FloatRange (Min numbers) (Max numbers)))"

section \<open>Candidate recommender\<close>

text \<open>
  A configuration is a Python dictionary from parameter name to value. A trial of the
  study holds a configuration and its observed value (\<open>None\<close> when it has none).
\<close>

type_synonym config = "(string \<times> pyval) list"

record trial =
  t_params :: config
  t_value :: "real option"

datatype py_error = ValueError | TypeError | KeyError | IndexError

text \<open>\<^verbatim>\<open>str(row.get(c, ""))\<close> on a row of the frame: a missing cell is the float NaN.\<close>

definition cell_str :: "(pyval \<Rightarrow> string) \<Rightarrow> pyval option \<Rightarrow> string" where
  "cell_str repr cell = (case cell of None \<Rightarrow> ''nan'' | Some v \<Rightarrow> py_str repr v)"

definition row_key :: "(pyval \<Rightarrow> string) \<Rightarrow> string list \<Rightarrow> run \<Rightarrow> string list" where
  "row_key repr feature_cols r = map (\<lambda>c. cell_str repr (params r c)) feature_cols"

text \<open>\<^verbatim>\<open>p.get(c, "")\<close> on a dictionary.\<close>

definition config_get :: "config \<Rightarrow> string \<Rightarrow> pyval" where
  "config_get p c = (case map_of p c of None \<Rightarrow> Str [] | Some v \<Rightarrow> v)"

definition config_key :: "(pyval \<Rightarrow> string) \<Rightarrow> string list \<Rightarrow> config \<Rightarrow> string list" where
  "config_key repr feature_cols p = map (\<lambda>c. py_str repr (config_get p c)) feature_cols"

text \<open>
  One \<^verbatim>\<open>dummy_study.ask()\<close> with a suggestion for every dimension of the space. The
  sampler is a parameter: \<open>suggest i col spec\<close> is what the \<open>i\<close>-th trial draws for
  \<open>col\<close>.
\<close>

definition sample_config ::
  "(nat \<Rightarrow> string \<Rightarrow> spec \<Rightarrow> pyval) \<Rightarrow> (string \<times> spec) list \<Rightarrow> nat \<Rightarrow> config" where
  "sample_config suggest space i = map (\<lambda>(col, sp). (col, suggest i col sp)) space"

text \<open>
  \<^verbatim>\<open>float(v)\<close>: parsing a string is a parameter, \<open>None\<close> when Python raises
  \<^verbatim>\<open>ValueError\<close>; the parsed float may be NaN.
\<close>

definition py_float :: "(string \<Rightarrow> real option option) \<Rightarrow> pyval \<Rightarrow> py_error + real option" where
  "py_float parse v =
     (case v of
        Num x \<Rightarrow> Inr (Some x)
      | IntV i \<Rightarrow> Inr (Some (real_of_int i))
      | Str s \<Rightarrow> (case parse s of None \<Rightarrow> Inl ValueError | Some x \<Rightarrow> Inr x))"

text \<open>
  The entry of \<^verbatim>\<open>row_enc\<close> for one column of the training table: the inner loop over
  \<^verbatim>\<open>feature_cols\<close> with its \<^verbatim>\<open>else\<close> branch.
\<close>

fun encode_cell ::
  "(pyval \<Rightarrow> string) \<Rightarrow> (string \<Rightarrow> real option option) \<Rightarrow> config \<Rightarrow> column \<Rightarrow> string list
     \<Rightarrow> py_error + real option" where
  "encode_cell repr parse cand col [] =
     (case map_of cand (fst col) of
        None \<Rightarrow> Inr (median (dropna (snd col)))
      | Some v \<Rightarrow> py_float parse v)"
| "encode_cell repr parse cand col (fc # fcs) =
     (let prefix = fc @ ''_''
      in if take (length prefix) (fst col) = prefix
         then Inr (Some (if py_str repr (config_get cand fc) = drop (length prefix) (fst col)
                         then 1 else 0))
         else encode_cell repr parse cand col fcs)"

text \<open>The first exception raised in a loop ends it.\<close>

fun collect :: "('e + 'a) list \<Rightarrow> 'e + 'a list" where
  "collect [] = Inr []"
| "collect (x # xs) =
     (case x of
        Inl e \<Rightarrow> Inl e
      | Inr v \<Rightarrow> (case collect xs of Inl e \<Rightarrow> Inl e | Inr vs \<Rightarrow> Inr (v # vs)))"

definition score_candidate ::
  "(pyval \<Rightarrow> string) \<Rightarrow> (string \<Rightarrow> real option option) \<Rightarrow> (real option list \<Rightarrow> real)
     \<Rightarrow> column list \<Rightarrow> string list \<Rightarrow> config \<Rightarrow> py_error + (config \<times> real)" where
  "score_candidate repr parse predict X_train feature_cols cand =
     (case collect (map (\<lambda>col. encode_cell repr parse cand col feature_cols) X_train) of
        Inl e \<Rightarrow> Inl e
      | Inr row_enc \<Rightarrow> Inr (cand, predict row_enc))"

text \<open>The loop over \<^verbatim>\<open>scored\<close> that keeps the first candidate of every key.\<close>

fun dedup_by_key ::
  "(pyval \<Rightarrow> string) \<Rightarrow> string list \<Rightarrow> string list list \<Rightarrow> (config \<times> real) list
     \<Rightarrow> (config \<times> real) list" where
  "dedup_by_key repr feature_cols seen [] = []"
| "dedup_by_key repr feature_cols seen (t # ts) =
     (let key = config_key repr feature_cols (fst t)
      in if key \<in> set seen then dedup_by_key repr feature_cols seen ts
         else t # dedup_by_key repr feature_cols (key # seen) ts)"

text \<open>
  The fallback loop over the study's trials, sorted by value: a trial without a value
  is skipped, a trial whose key is not a key of the frame is appended, and the loop
  ends once \<open>n\<close> are found.
\<close>

fun fallback_loop ::
  "(pyval \<Rightarrow> string) \<Rightarrow> string list \<Rightarrow> string list list \<Rightarrow> int \<Rightarrow> (config \<times> real) list
     \<Rightarrow> trial list \<Rightarrow> (config \<times> real) list" where
  "fallback_loop repr feature_cols existing_keys n result [] = result"
| "fallback_loop repr feature_cols existing_keys n result (t # ts) =
     (case t_value t of
        None \<Rightarrow> fallback_loop repr feature_cols existing_keys n result ts
      | Some v \<Rightarrow>
          (let result' = (if config_key repr feature_cols (t_params t) \<notin> set existing_keys
                          then result @ [(t_params t, v)] else result)
           in if n \<le> int (length result') then result'
              else fallback_loop repr feature_cols existing_keys n result' ts))"

text \<open>
  \<^verbatim>\<open>_suggest_next\<close>. The sampler, the string parser and the surrogate's \<^verbatim>\<open>predict\<close>
  are parameters; \<^verbatim>\<open>sorted(..., reverse=True)\<close> and \<^verbatim>\<open>list.sort(reverse=True)\<close> are
  stable, as \<open>sort_key\<close> is.
\<close>

definition suggest_next ::
  "(pyval \<Rightarrow> string) \<Rightarrow> (string \<Rightarrow> real option option) \<Rightarrow> (nat \<Rightarrow> string \<Rightarrow> spec \<Rightarrow> pyval)
     \<Rightarrow> trial list \<Rightarrow> (string \<times> spec) list \<Rightarrow> (real option list \<Rightarrow> real) option
     \<Rightarrow> column list option \<Rightarrow> string list \<Rightarrow> int \<Rightarrow> dataframe
     \<Rightarrow> py_error + (config \<times> real) list" where
  "suggest_next repr parse suggest study_trials space surrogate_model X_train feature_cols n
       df_existing =
     (let existing_keys = map (row_key repr feature_cols) df_existing;
          candidates = filter (\<lambda>p. config_key repr feature_cols p \<notin> set existing_keys)
                         (map (sample_config suggest space) [0..<nat (n * 40)])
      in if candidates = [] then Inr []
         else (case (surrogate_model, X_train) of
            (Some predict, Some X) \<Rightarrow>
              (case collect (map (score_candidate repr parse predict X feature_cols) candidates) of
                 Inl e \<Rightarrow> Inl e
               | Inr scored \<Rightarrow>
                   Inr (take (nat n)
                          (dedup_by_key repr feature_cols []
                             (sort_key (\<lambda>t. - snd t) scored))))
          | _ \<Rightarrow>
              Inr (fallback_loop repr feature_cols existing_keys n []
                     (sort_key (\<lambda>t. - (case t_value t of None \<Rightarrow> 0 | Some v \<Rightarrow> v))
                        study_trials))))"

text \<open>
  The value \<^verbatim>\<open>_add_past_trials\<close> gives one parameter of a past trial. A missing cell is
  the float NaN and takes the default of the domain: the first choice, or the middle of
  the range. \<^verbatim>\<open>choices[0]\<close> raises \<^verbatim>\<open>IndexError\<close> on no choice, \<^verbatim>\<open>int(float(raw))\<close>
  raises \<^verbatim>\<open>ValueError\<close> on NaN, and \<^verbatim>\<open>max(lo, min(hi, nan))\<close> is \<^verbatim>\<open>max(lo, hi)\<close>.
\<close>

definition past_value ::
  "(pyval \<Rightarrow> string) \<Rightarrow> (string \<Rightarrow> real option option) \<Rightarrow> spec \<Rightarrow> pyval option
     \<Rightarrow> py_error + pyval" where
  "past_value repr parse sp raw =
     (case sp of
        Categorical choices \<Rightarrow>
          (case choices of
             [] \<Rightarrow> Inl IndexError
           | c0 # cs \<Rightarrow>
               (let val = (case raw of None \<Rightarrow> c0 | Some v \<Rightarrow> py_str repr v)
                in Inr (Str (if val \<in> set choices then val else c0))))
      | IntRange lo hi \<Rightarrow>
          (case raw of
             None \<Rightarrow> Inr (IntV (max lo (min hi ((lo + hi) div 2))))
           | Some v \<Rightarrow>
               (case py_float parse v of
                  Inl e \<Rightarrow> Inl e
                | Inr None \<Rightarrow> Inl ValueError
                | Inr (Some x) \<Rightarrow> Inr (IntV (max lo (min hi (py_int x))))))
      | FloatRange lo hi \<Rightarrow>
          (case raw of
             None \<Rightarrow> Inr (Num (max lo (min hi ((lo + hi) / 2))))
           | Some v \<Rightarrow>
               (case py_float parse v of
                  Inl e \<Rightarrow> Inl e
                | Inr None \<Rightarrow> Inr (Num (max lo hi))
                | Inr (Some x) \<Rightarrow> Inr (Num (max lo (min hi x))))))"

text \<open>The trial \<^verbatim>\<open>_add_past_trials\<close> creates for one row that has a target.\<close>

definition past_trial ::
  "(pyval \<Rightarrow> string) \<Rightarrow> (string \<Rightarrow> real option option) \<Rightarrow> (string \<times> spec) list \<Rightarrow> string
     \<Rightarrow> run \<Rightarrow> py_error + trial" where
  "past_trial repr parse space target r =
     (case collect (map (\<lambda>(col, sp). case past_value repr parse sp (params r col) of
                                          Inl e \<Rightarrow> Inl e
                                        | Inr v \<Rightarrow> Inr (col, v)) space) of
        Inl e \<Rightarrow> Inl e
      | Inr ps \<Rightarrow> Inr \<lparr>t_params = ps, t_value = metrics r target\<rparr>)"

text \<open>\<^verbatim>\<open>_add_past_trials\<close>: the trials of the study, one per row with a target.\<close>

definition add_past_trials ::
  "(pyval \<Rightarrow> string) \<Rightarrow> (string \<Rightarrow> real option option) \<Rightarrow> dataframe \<Rightarrow> (string \<times> spec) list
     \<Rightarrow> string \<Rightarrow> py_error + trial list" where
  "add_past_trials repr parse df space target =
     collect (map (past_trial repr parse space target)
                  (filter (\<lambda>r. metrics r target \<noteq> None) df))"

text \<open>
  \<^verbatim>\<open>phase3_optuna\<close>, as far as the suggestions it prints and saves: none when no
  parameter space can be inferred, otherwise what \<^verbatim>\<open>_suggest_next\<close> returns for the
  study of the past trials.
\<close>

definition phase3_suggestions ::
  "(pyval \<Rightarrow> string) \<Rightarrow> (string \<Rightarrow> real option option) \<Rightarrow> (nat \<Rightarrow> string \<Rightarrow> spec \<Rightarrow> pyval)
     \<Rightarrow> dataframe \<Rightarrow> string list \<Rightarrow> string \<Rightarrow> int \<Rightarrow> (real option list \<Rightarrow> real) option
     \<Rightarrow> column list option \<Rightarrow> py_error + (config \<times> real) list" where
  "phase3_suggestions repr parse suggest df feature_cols target n_suggestions surrogate_model
       X_encoded =
     (let space = infer_param_space repr df feature_cols
      in if space = [] then Inr []
         else (case add_past_trials repr parse df space target of
                 Inl e \<Rightarrow> Inl e
               | Inr study_trials \<Rightarrow>
                   suggest_next repr parse suggest study_trials space surrogate_model X_encoded
                     feature_cols n_suggestions df))"

text \<open>
  A candidate identical to a historical configuration, as the specification words it: a
  candidate assigns every parameter of the parameter space, and it has, parameter by
  parameter, the text the run has.
\<close>

definition identical_config ::
  "(pyval \<Rightarrow> string) \<Rightarrow> (string \<times> spec) list \<Rightarrow> config \<Rightarrow> run \<Rightarrow> bool" where
  "identical_config repr space cand r =
     (map fst cand = map fst space
      \<and> list_all (\<lambda>c. py_str repr (config_get cand c) = cell_str repr (params r c))
            (map fst space))"

definition repeats_history ::
  "(pyval \<Rightarrow> string) \<Rightarrow> (string \<times> spec) list \<Rightarrow> dataframe \<Rightarrow> config \<times> real \<Rightarrow> bool" where
  "repeats_history repr space df t = list_ex (identical_config repr space (fst t)) df"

section \<open>Aggregate feature ranking\<close>

text \<open>
  \<^verbatim>\<open>np.abs(shap_values).mean(axis=0)\<close>: the matrix of contributions has one row per run
  and one entry per feature; it comes from the attribution library and is an input here.
\<close>

text \<open>Every row of the matrix has one entry per feature, \<open>k\<close> in all.\<close>

definition mean_abs :: "nat \<Rightarrow> real list list \<Rightarrow> real list" where
  "mean_abs k shap_values =
     map (\<lambda>j. sum_list (map (\<lambda>row. \<bar>row ! j\<bar>) shap_values) / real (length shap_values))
       [0..<k]"

text \<open>
  \<^verbatim>\<open>imp_df\<close>: the features with their importance after
  \<^verbatim>\<open>sort_values("importance", ascending=True)\<close>. The sorting routine of the library is a
  parameter: \<open>argsort xs\<close> is the order in which it puts the positions of \<open>xs\<close>.
\<close>

definition imp_df :: "(real list \<Rightarrow> nat list) \<Rightarrow> string list \<Rightarrow> real list list \<Rightarrow> (string \<times> real) list" where
  "imp_df argsort features shap_values =
     (let importance = mean_abs (length features) shap_values
      in map (\<lambda>i. (features ! i, importance ! i)) (argsort importance))"

text \<open>The ranking as printed, most important first: \<^verbatim>\<open>imp_df.iloc[::-1]\<close>.\<close>

definition feature_ranking :: "(real list \<Rightarrow> nat list) \<Rightarrow> string list \<Rightarrow> real list list \<Rightarrow> (string \<times> real) list" where
  "feature_ranking argsort features shap_values = rev (imp_df argsort features shap_values)"

text \<open>What a sorting routine guarantees: a permutation of the positions, in increasing order of value.\<close>

definition sorts :: "(real list \<Rightarrow> nat list) \<Rightarrow> bool" where
  "sorts argsort =
     (\<forall>xs. mset (argsort xs) = mset [0..<length xs] \<and> sorted (map (\<lambda>i. xs ! i) (argsort xs)))"

definition stable_argsort :: "real list \<Rightarrow> nat list" where
  "stable_argsort xs = sort_key (\<lambda>i. xs ! i) [0..<length xs]"

definition descending :: "(string \<times> real) list \<Rightarrow> bool" where
  "descending r = (\<forall>i j. i < j \<and> j < length r \<longrightarrow> snd (r ! j) \<le> snd (r ! i))"

text \<open>Ties broken by feature name, ascending, as the specification words it.\<close>

definition ties_by_name :: "(string \<times> real) list \<Rightarrow> bool" where
  "ties_by_name r =
     (\<forall>i j. i < j \<and> j < length r \<and> snd (r ! i) = snd (r ! j) \<longrightarrow> fst (r ! i) \<le> fst (r ! j))"

section \<open>Causal estimator: preconditions and treatment selection\<close>

definition mean :: "real list \<Rightarrow> real" where
  "mean xs = sum_list xs / real (length xs)"

text \<open>\<^verbatim>\<open>series.std()\<close>: the sample standard deviation of the values that are not missing.\<close>

definition variance :: "real list \<Rightarrow> real" where
  "variance xs = sum_list (map (\<lambda>x. (x - mean xs)\<^sup>2) xs) / (real (length xs) - 1)"

definition std :: "real list \<Rightarrow> real" where
  "std xs = sqrt (variance xs)"

definition target_col :: "dataframe \<Rightarrow> string \<Rightarrow> real option list" where
  "target_col df target = map (\<lambda>r. metrics r target) df"

text \<open>Priority 1: \<^verbatim>\<open>[c for c in feature_cols if df[c].dropna().nunique() == 2]\<close>.\<close>

definition binary_feats :: "dataframe \<Rightarrow> string list \<Rightarrow> string list" where
  "binary_feats df feature_cols = filter (\<lambda>c. nunique (col_cells df c) = 2) feature_cols"

text \<open>Priority 2: the columns that are not numeric and have at least two distinct values.\<close>

definition cat_feats :: "dataframe \<Rightarrow> string list \<Rightarrow> string list" where
  "cat_feats df feature_cols =
     filter (\<lambda>c. \<not> is_numeric_dtype df c \<and> 2 \<le> nunique (col_cells df c)) feature_cols"

text \<open>\<^verbatim>\<open>df.loc[df[feat] == val, target].dropna()\<close>\<close>

definition group_targets :: "dataframe \<Rightarrow> string \<Rightarrow> string \<Rightarrow> pyval \<Rightarrow> real list" where
  "group_targets df target feat val =
     dropna (target_col (filter (\<lambda>r. params r feat = Some val) df) target)"

definition delta :: "dataframe \<Rightarrow> string \<Rightarrow> string \<times> pyval \<Rightarrow> real" where
  "delta df target fv =
     mean (group_targets df target (fst fv) (snd fv)) - mean (dropna (target_col df target))"

text \<open>
  The body of the two nested loops: a category with fewer than two targets is passed
  over; otherwise it replaces the best so far when its delta is strictly greater.
\<close>

definition consider_category ::
  "dataframe \<Rightarrow> string \<Rightarrow> real \<times> string option \<times> pyval option \<Rightarrow> string \<times> pyval
     \<Rightarrow> real \<times> string option \<times> pyval option" where
  "consider_category df target best fv =
     (if 2 \<le> length (group_targets df target (fst fv) (snd fv))
      then (if fst best < delta df target fv
            then (delta df target fv, Some (fst fv), Some (snd fv)) else best)
      else best)"

text \<open>The pairs the nested loops visit, in order.\<close>

definition category_pairs :: "dataframe \<Rightarrow> string list \<Rightarrow> (string \<times> pyval) list" where
  "category_pairs df feats =
     concat (map (\<lambda>feat. map (Pair feat) (unique (dropna (col_cells df feat)))) feats)"

definition best_category ::
  "dataframe \<Rightarrow> string \<Rightarrow> string list \<Rightarrow> real \<times> string option \<times> pyval option" where
  "best_category df target feats =
     foldl (consider_category df target) (- 999, None, None) (category_pairs df feats)"

text \<open>
  Priority 3: the numeric columns with more than one distinct value, by decreasing
  standard deviation (\<^verbatim>\<open>sorted(..., reverse=True)\<close> keeps the order of equal keys).
\<close>

definition num_varying :: "dataframe \<Rightarrow> string list \<Rightarrow> string list" where
  "num_varying df feature_cols =
     sort_key (\<lambda>c. - std (map to_real (dropna (col_cells df c))))
       (filter (\<lambda>c. is_numeric_dtype df c \<and> 1 < nunique (col_cells df c)) feature_cols)"

text \<open>
  The automatic selection: the treatment column and \<^verbatim>\<open>_treatment_pos_val\<close>, or \<open>None\<close>
  when no feature is suitable. \<^verbatim>\<open>if best_feat:\<close> is false for the empty name as well.
\<close>

definition auto_treatment :: "dataframe \<Rightarrow> string list \<Rightarrow> string \<Rightarrow> (string \<times> pyval option) option" where
  "auto_treatment df feature_cols target =
     (case binary_feats df feature_cols of
        b # bs \<Rightarrow> Some (b, None)
      | [] \<Rightarrow>
         (let best = (if cat_feats df feature_cols = [] then (- 999, None, None)
                      else best_category df target (cat_feats df feature_cols))
          in case fst (snd best) of
               Some f \<Rightarrow> if f \<noteq> [] then Some (f, snd (snd best))
                         else (case num_varying df feature_cols of
                                 [] \<Rightarrow> None | c # cs \<Rightarrow> Some (c, None))
             | None \<Rightarrow> (case num_varying df feature_cols of
                          [] \<Rightarrow> None | c # cs \<Rightarrow> Some (c, None))))"

text \<open>
  The categories the nested loops can choose: those of a categorical column with at
  least two targets that are not missing.
\<close>

definition eligible :: "dataframe \<Rightarrow> string \<Rightarrow> string list \<Rightarrow> (string \<times> pyval) list" where
  "eligible df target feature_cols =
     filter (\<lambda>fv. 2 \<le> length (group_targets df target (fst fv) (snd fv)))
       (category_pairs df (cat_feats df feature_cols))"

text \<open>The sort key of priority 3 for one column.\<close>

definition col_std :: "dataframe \<Rightarrow> string \<Rightarrow> real" where
  "col_std df c = std (map to_real (dropna (col_cells df c)))"

text \<open>
  The selection as the amended claim words it, for comparison with \<open>auto_treatment\<close>.
  \<open>first_max f xs\<close> is the first element of \<open>xs\<close> at which \<open>f\<close> is greatest. The treatment
  is the first parameter, in the order of \<^verbatim>\<open>feature_cols\<close>, with exactly two distinct
  values; else the first of the eligible categories whose mean target exceeds the
  overall mean by more than -999 and by the most, with that category as the positive
  value; else the first of the numeric parameters with more than one distinct value
  whose standard deviation is greatest; else none.
\<close>

definition first_max :: "('a \<Rightarrow> real) \<Rightarrow> 'a list \<Rightarrow> 'a option" where
  "first_max f xs = List.find (\<lambda>x. \<forall>y \<in> set xs. f y \<le> f x) xs"

definition spec_treatment :: "dataframe \<Rightarrow> string list \<Rightarrow> string \<Rightarrow> (string \<times> pyval option) option" where
  "spec_treatment df feature_cols target =
     (case List.find (\<lambda>c. nunique (col_cells df c) = 2) feature_cols of
        Some b \<Rightarrow> Some (b, None)
      | None \<Rightarrow>
         (case first_max (delta df target)
                 (filter (\<lambda>fv. - 999 < delta df target fv) (eligible df target feature_cols)) of
            Some fv \<Rightarrow> Some (fst fv, Some (snd fv))
          | None \<Rightarrow>
             (case first_max (col_std df)
                     (filter (\<lambda>c. is_numeric_dtype df c \<and> 1 < nunique (col_cells df c))
                        feature_cols) of
                Some c \<Rightarrow> Some (c, None)
              | None \<Rightarrow> None)))"

text \<open>\<^verbatim>\<open>df_dw\<close>: the rows whose target is not missing.\<close>

definition df_dw :: "dataframe \<Rightarrow> string \<Rightarrow> dataframe" where
  "df_dw df target = filter (\<lambda>r. metrics r target \<noteq> None) df"

text \<open>
  The treatment column after lines 794 to 813. The dtype of a column of \<^verbatim>\<open>df_dw\<close> is the
  dtype it has in \<^verbatim>\<open>df\<close>. \<^verbatim>\<open>sorted\<close> raises \<^verbatim>\<open>TypeError\<close> on a mix of strings and
  numbers. A missing cell compares false, and \<^verbatim>\<open>map\<close> leaves it missing.
\<close>

definition ordinal_code :: "pyval list \<Rightarrow> pyval \<Rightarrow> real option" where
  "ordinal_code uniq v =
     (if v \<in> set uniq then Some (real (length (takeWhile (\<lambda>u. u \<noteq> v) uniq))) else None)"

definition binarize ::
  "dataframe \<Rightarrow> string \<Rightarrow> string \<Rightarrow> pyval option \<Rightarrow> py_error + real option list" where
  "binarize df target t pos_val =
     (let cells = col_cells (df_dw df target) t;
          present = unique (dropna cells)
      in if is_numeric_dtype df t then
           (if 2 < nunique cells
            then (case median (map to_real (dropna cells)) of
                    None \<Rightarrow> Inr (map (\<lambda>c. Some 0) cells)
                  | Some m \<Rightarrow>
                      Inr (map (\<lambda>c. case c of None \<Rightarrow> Some 0
                                     | Some v \<Rightarrow> Some (if m < to_real v then 1 else 0)) cells))
            else Inr (map (map_option to_real) cells))
         else (case pos_val of
                 Some p \<Rightarrow> Inr (map (\<lambda>c. Some (if c = Some p then 1 else 0)) cells)
               | None \<Rightarrow>
                   if (\<exists>v \<in> set present. is_str (Some v)) \<and> (\<exists>v \<in> set present. \<not> is_str (Some v))
                   then Inl TypeError
                   else (let uniq = sort_key to_real (filter (\<lambda>v. \<not> is_str (Some v)) present)
                                    @ sort_key str_text (filter (\<lambda>v. is_str (Some v)) present)
                         in Inr (map (\<lambda>c. case c of None \<Rightarrow> None
                                           | Some v \<Rightarrow> ordinal_code uniq v) cells))))"

datatype decline = DowhyMissing | TooFewRuns nat | NoTreatment

record prepared =
  treatment :: string
  positive_value :: "pyval option"
  rows :: dataframe
  treatment_values :: "real option list"

datatype outcome = Declined decline | Raised py_error | Prepared prepared

text \<open>
  \<^verbatim>\<open>phase4_dowhy\<close> up to line 813: the guards that decline, the choice of the treatment
  and the frame prepared for the estimation. Whether \<^verbatim>\<open>dowhy\<close> can be imported is an
  input. A supplied treatment that is not a feature column is dropped with a warning;
  the empty name is kept (\<^verbatim>\<open>if treatment_col and ...\<close>), and \<^verbatim>\<open>df_dw[treatment_col]\<close>
  then raises \<^verbatim>\<open>KeyError\<close> (the target is the name of a metric, never empty).
\<close>

definition phase4_prepare ::
  "bool \<Rightarrow> dataframe \<Rightarrow> string list \<Rightarrow> string \<Rightarrow> string option \<Rightarrow> outcome" where
  "phase4_prepare dowhy_installed df feature_cols target treatment_col =
     (if \<not> dowhy_installed then Declined DowhyMissing
      else if length df < 6 then Declined (TooFewRuns (length df))
      else (let supplied = (case treatment_col of
                              None \<Rightarrow> None
                            | Some t \<Rightarrow> if t \<noteq> [] \<and> t \<notin> set feature_cols then None else Some t);
                chosen = (case supplied of
                            Some t \<Rightarrow> Some (t, None)
                          | None \<Rightarrow> auto_treatment df feature_cols target)
            in case chosen of
                 None \<Rightarrow> Declined NoTreatment
               | Some (t, pos_val) \<Rightarrow>
                   if t \<notin> set feature_cols then Raised KeyError
                   else (case binarize df target t pos_val of
                           Inl e \<Rightarrow> Raised e
                         | Inr tv \<Rightarrow>
                             Prepared \<lparr>treatment = t, positive_value = pos_val,
                                       rows = df_dw df target, treatment_values = tv\<rparr>)))"

section \<open>Causal estimator: significance of the effect\<close>

definition dot :: "real list \<Rightarrow> real list \<Rightarrow> real" where
  "dot xs ys = sum_list (map2 (*) xs ys)"

text \<open>\<^verbatim>\<open>X_np.T @ X_np\<close> for a matrix of \<open>k\<close> columns, given by its rows.\<close>

definition gram :: "nat \<Rightarrow> real list list \<Rightarrow> real list list" where
  "gram k X = map (\<lambda>i. map (\<lambda>j. sum_list (map (\<lambda>row. row ! i * row ! j) X)) [0..<k]) [0..<k]"

text \<open>
  Lines 859 to 871: the standard error and the p-value of the treatment coefficient.
  The fitted regression (\<^verbatim>\<open>coef_\<close>, \<^verbatim>\<open>intercept_\<close>) is an input. \<^verbatim>\<open>np.linalg.inv\<close> and
  \<^verbatim>\<open>scipy.stats.t.sf\<close> are parameters: \<open>linalg_inv A\<close> is \<open>None\<close> where the library raises
  \<^verbatim>\<open>LinAlgError\<close> (singular matrix), and \<open>t_sf x d\<close> is the survival function of the t
  distribution with \<open>d\<close> degrees of freedom.
\<close>

definition residuals :: "real list list \<Rightarrow> real list \<Rightarrow> real list \<Rightarrow> real \<Rightarrow> real list" where
  "residuals X y coef intercept = map2 (-) y (map (\<lambda>row. dot row coef + intercept) X)"

definition t_statistic :: "real \<Rightarrow> real \<Rightarrow> real" where
  "t_statistic ate se = (if 0 < se then ate / se else 0)"

definition ols_significance ::
  "(real list list \<Rightarrow> real list list option) \<Rightarrow> (real \<Rightarrow> int \<Rightarrow> real)
     \<Rightarrow> real list list \<Rightarrow> real list \<Rightarrow> real list \<Rightarrow> real \<Rightarrow> nat \<Rightarrow> real \<times> real" where
  "ols_significance linalg_inv t_sf X y coef intercept t_idx =
     (let ate = coef ! t_idx;
          res = residuals X y coef intercept;
          n = int (length y);
          k = int (length coef);
          mse = dot res res / real_of_int (max (n - k - 1) 1)
      in case linalg_inv (gram (length coef) X) of
           None \<Rightarrow> (0, 1)
         | Some C \<Rightarrow>
             (let se = sqrt (mse * (C ! t_idx ! t_idx))
              in (se, 2 * t_sf \<bar>t_statistic ate se\<bar> (n - k - 1))))"

text \<open>
  Matrices of \<open>k\<close> rows and \<open>k\<close> columns, given by their rows: the product, the identity,
  and what it is for \<open>C\<close> to be the inverse of \<open>A\<close>. A matrix is singular when it has no
  inverse.
\<close>

definition mat_mul :: "nat \<Rightarrow> real list list \<Rightarrow> real list list \<Rightarrow> real list list" where
  "mat_mul k A B =
     map (\<lambda>i. map (\<lambda>j. sum_list (map (\<lambda>l. A ! i ! l * B ! l ! j) [0..<k])) [0..<k]) [0..<k]"

definition identity :: "nat \<Rightarrow> real list list" where
  "identity k = map (\<lambda>i. map (\<lambda>j. if i = j then 1 else 0) [0..<k]) [0..<k]"

definition square :: "nat \<Rightarrow> real list list \<Rightarrow> bool" where
  "square k A = (length A = k \<and> list_all (\<lambda>row. length row = k) A)"

definition is_inverse :: "nat \<Rightarrow> real list list \<Rightarrow> real list list \<Rightarrow> bool" where
  "is_inverse k A C = (square k C \<and> mat_mul k A C = identity k \<and> mat_mul k C A = identity k)"

definition singular :: "nat \<Rightarrow> real list list \<Rightarrow> bool" where
  "singular k A = (\<not> (\<exists>C. is_inverse k A C))"

text \<open>
  The prediction of the fitted regression for row \<open>i\<close>, and the mean squared error
  \<^verbatim>\<open>np.dot(residuals, residuals) / max(n - k - 1, 1)\<close> written out by index: the sum of
  the squared differences between target and prediction over the rows.
\<close>

definition predicted :: "real list list \<Rightarrow> real list \<Rightarrow> real \<Rightarrow> nat \<Rightarrow> real" where
  "predicted X coef intercept i =
     sum_list (map (\<lambda>j. X ! i ! j * coef ! j) [0..<length coef]) + intercept"

definition mean_squared_error :: "real list list \<Rightarrow> real list \<Rightarrow> real list \<Rightarrow> real \<Rightarrow> real" where
  "mean_squared_error X y coef intercept =
     sum_list (map (\<lambda>i. (y ! i - predicted X coef intercept i)\<^sup>2) [0..<length y])
       / real_of_int (max (int (length y) - int (length coef) - 1) 1)"

section \<open>Example data\<close>

text \<open>
  The text Python gives an integer and a whole float (\<^verbatim>\<open>str(7) == "7"\<close>,
  \<^verbatim>\<open>str(7.0) == "7.0"\<close>); the examples hold no other float.
\<close>

fun show_nat :: "nat \<Rightarrow> string" where
  "show_nat n =
     (if n < 10 then [''0123456789'' ! n]
      else show_nat (n div 10) @ [''0123456789'' ! (n mod 10)])"

declare show_nat.simps [simp del]

definition show_int :: "int \<Rightarrow> string" where
  "show_int i = (if i < 0 then ''-'' @ show_nat (nat (- i)) else show_nat (nat i))"

fun repr_whole :: "pyval \<Rightarrow> string" where
  "repr_whole (IntV i) = show_int i"
| "repr_whole (Num x) = show_int \<lfloor>x\<rfloor> @ ''.0''"
| "repr_whole (Str s) = s"

definition mk_run :: "(string \<times> pyval) list \<Rightarrow> (string \<times> real) list \<Rightarrow> run" where
  "mk_run ps ms = \<lparr>params = map_of ps, metrics = map_of ms\<rparr>"

text \<open>Three runs; the second has no target and the third no \<^verbatim>\<open>top_k\<close>.\<close>

definition frame_small :: dataframe where
  "frame_small =
     [mk_run [(''top_k'', Num 1)] [(''llm_f1'', 1/2)],
      mk_run [(''top_k'', Num 3)] [],
      mk_run [] [(''llm_f1'', 1/4)]]"

text \<open>Six runs, one of them without a target; \<^verbatim>\<open>rerank\<close> has two values.\<close>

definition frame_binary :: dataframe where
  "frame_binary =
     [mk_run [(''rerank'', Str ''on'')] [(''llm_f1'', 1/2)],
      mk_run [(''rerank'', Str ''off'')] [(''llm_f1'', 1/4)],
      mk_run [(''rerank'', Str ''on'')] [],
      mk_run [(''rerank'', Str ''off'')] [(''llm_f1'', 1/4)],
      mk_run [(''rerank'', Str ''on'')] [(''llm_f1'', 3/4)],
      mk_run [(''rerank'', Str ''off'')] [(''llm_f1'', 1/2)]]"

text \<open>
  Six runs with one categorical parameter: mode \<^verbatim>\<open>a\<close> has the best score but a single
  run, \<^verbatim>\<open>b\<close> has two runs and \<^verbatim>\<open>c\<close> three.
\<close>

definition frame_modes :: dataframe where
  "frame_modes =
     [mk_run [(''mode'', Str ''a'')] [(''llm_f1'', 9/10)],
      mk_run [(''mode'', Str ''b'')] [(''llm_f1'', 1/2)],
      mk_run [(''mode'', Str ''b'')] [(''llm_f1'', 1/2)],
      mk_run [(''mode'', Str ''c'')] [(''llm_f1'', 1/10)],
      mk_run [(''mode'', Str ''c'')] [(''llm_f1'', 1/10)],
      mk_run [(''mode'', Str ''c'')] [(''llm_f1'', 1/10)]]"

text \<open>Six runs with two numeric parameters; \<^verbatim>\<open>top_k\<close> varies more than \<^verbatim>\<open>alpha\<close>.\<close>

definition frame_numeric :: dataframe where
  "frame_numeric =
     [mk_run [(''alpha'', Num 1), (''top_k'', Num 10)] [(''llm_f1'', 1/10)],
      mk_run [(''alpha'', Num 2), (''top_k'', Num 20)] [(''llm_f1'', 2/10)],
      mk_run [(''alpha'', Num 3), (''top_k'', Num 30)] [(''llm_f1'', 3/10)],
      mk_run [(''alpha'', Num 4), (''top_k'', Num 40)] [(''llm_f1'', 4/10)],
      mk_run [(''alpha'', Num 5), (''top_k'', Num 50)] [(''llm_f1'', 5/10)],
      mk_run [(''alpha'', Num 6), (''top_k'', Num 60)] [(''llm_f1'', 6/10)]]"

text \<open>
  Six runs with two parameters of two values each, and six runs whose only parameter
  has one value.
\<close>

definition frame_two_binary :: dataframe where
  "frame_two_binary =
     [mk_run [(''rerank'', Str ''on''), (''stream'', Str ''yes'')] [(''llm_f1'', 1/2)],
      mk_run [(''rerank'', Str ''off''), (''stream'', Str ''no'')] [(''llm_f1'', 1/4)],
      mk_run [(''rerank'', Str ''on''), (''stream'', Str ''no'')] [(''llm_f1'', 3/4)],
      mk_run [(''rerank'', Str ''off''), (''stream'', Str ''yes'')] [(''llm_f1'', 1/4)],
      mk_run [(''rerank'', Str ''on''), (''stream'', Str ''yes'')] [(''llm_f1'', 3/4)],
      mk_run [(''rerank'', Str ''off''), (''stream'', Str ''no'')] [(''llm_f1'', 1/2)]]"

definition frame_constant :: dataframe where
  "frame_constant =
     [mk_run [(''mode'', Str ''a'')] [(''llm_f1'', 1/2)],
      mk_run [(''mode'', Str ''a'')] [(''llm_f1'', 1/4)],
      mk_run [(''mode'', Str ''a'')] [(''llm_f1'', 3/4)],
      mk_run [(''mode'', Str ''a'')] [(''llm_f1'', 1/4)],
      mk_run [(''mode'', Str ''a'')] [(''llm_f1'', 3/4)],
      mk_run [(''mode'', Str ''a'')] [(''llm_f1'', 1/2)]]"

text \<open>Two runs that differ in the query mode; no run gives \<^verbatim>\<open>topK\<close>.\<close>

definition frame_no_top_k :: dataframe where
  "frame_no_top_k =
     [mk_run [(''query_mode'', Str ''a'')] [(''llm_f1'', 1/2)],
      mk_run [(''query_mode'', Str ''b'')] [(''llm_f1'', 1/4)]]"

text \<open>A sampler that walks through the domain, one step per trial.\<close>

definition example_suggest :: "nat \<Rightarrow> string \<Rightarrow> spec \<Rightarrow> pyval" where
  "example_suggest i col sp =
     (case sp of
        Categorical cs \<Rightarrow> Str (cs ! (i mod length cs))
      | IntRange lo hi \<Rightarrow> IntV (lo + int i mod (hi - lo + 1))
      | FloatRange lo hi \<Rightarrow> Num lo)"

definition example_space :: "(string \<times> spec) list" where
  "example_space = [(''mode'', Categorical [''a'', ''b'', ''c'', ''d''])]"

text \<open>The encoded table of two runs with modes \<^verbatim>\<open>a\<close> and \<^verbatim>\<open>b\<close>.\<close>

definition example_table :: "column list" where
  "example_table = [(''mode_a'', [Some 1, Some 0]), (''mode_b'', [Some 0, Some 1])]"

text \<open>Two past trials of an integer parameter, as \<^verbatim>\<open>_add_past_trials\<close> converts them.\<close>

definition example_trials :: "trial list" where
  "example_trials =
     [\<lparr>t_params = [(''top_k'', IntV 10)], t_value = Some (1/10)\<rparr>,
      \<lparr>t_params = [(''top_k'', IntV 60)], t_value = Some (6/10)\<rparr>]"

text \<open>
  Stand-ins for the numerical libraries in the examples: the exact inverse of a matrix
  of one row and one column, which fails on the zero matrix, and a decreasing function
  in place of the survival function.
\<close>

fun inv_1x1 :: "real list list \<Rightarrow> real list list option" where
  "inv_1x1 [[a]] = (if a = 0 then None else Some [[1 / a]])"
| "inv_1x1 A = None"

definition example_t_sf :: "real \<Rightarrow> int \<Rightarrow> real" where
  "example_t_sf x d = 1 / (2 * (1 + x))"

section \<open>Properties of the feature codec\<close>

lemma length_fillna: "length (fillna v xs) = length xs"
  by (simp add: fillna_def)

lemma encode_features_rows:
  assumes "col \<in> set (encode_features repr df feature_cols)"
  shows "length (snd col) = length df"
  using assms
  by (auto simp: encode_features_def fill_median_def get_dummies_def col_cells_def
      length_fillna Let_def)

lemma dropna_all_missing: "dropna (replicate n None) = []"
  by (simp add: dropna_def)

lemma fillna_all_missing: "fillna None (replicate n None) = replicate n None"
  by (simp add: fillna_def)

lemma all_missing_cells:
  assumes "\<forall>r \<in> set df. params r c = None"
  shows "col_cells df c = replicate (length df) None"
  using assms by (induction df) (auto simp: col_cells_def)

text \<open>
  C9: the surrogate is trained on every row: the table and the target vector have one
  entry per input row, and the target of a row whose metric is missing is 0.
\<close>

theorem training_keeps_rows_and_zero_fills_target:
  assumes "phase2_training_set repr df feature_cols target = Some (X, y)"
  shows "length y = length df
       \<and> (\<forall>col \<in> set X. length (snd col) = length df)
       \<and> (\<forall>i < length df. y ! i = (case metrics (df ! i) target of None \<Rightarrow> 0 | Some v \<Rightarrow> v))"
proof -
  from assms have X: "X = encode_features repr df feature_cols"
    and y: "y = target_vector df target"
    by (auto simp: phase2_training_set_def Let_def split: if_splits)
  have "length y = length df"
    by (simp add: y target_vector_def)
  moreover have "\<forall>col \<in> set X. length (snd col) = length df"
    using encode_features_rows X by blast
  moreover have "\<forall>i < length df. y ! i = (case metrics (df ! i) target of None \<Rightarrow> 0 | Some v \<Rightarrow> v)"
    by (simp add: y target_vector_def)
  ultimately show ?thesis by blast
qed

lemma frame_small_encoded:
  "encode_features repr_whole frame_small [''top_k''] = [(''top_k'', [Some 1, Some 3, Some 2])]"
  by (simp add: encode_features_def is_numeric_dtype_def col_cells_def frame_small_def mk_run_def
      fill_median_def fillna_def median_def dropna_def)

lemma frame_small_training_set:
  "phase2_training_set repr_whole frame_small [''top_k''] ''llm_f1''
     = Some ([(''top_k'', [Some 1, Some 3, Some 2])], [1/2, 0, 1/4])"
  unfolding phase2_training_set_def frame_small_encoded
  by (simp add: target_vector_def frame_small_def mk_run_def)

theorem training_keeps_rows_witness:
  "phase2_training_set repr_whole frame_small [''top_k''] ''llm_f1''
     = Some ([(''top_k'', [Some 1, Some 3, Some 2])], [1/2, 0, 1/4])
   \<and> length [1/2, 0, 1/4 :: real] = length frame_small
   \<and> metrics (frame_small ! 1) ''llm_f1'' = None
   \<and> [1/2, 0, 1/4 :: real] ! 1 = 0"
proof -
  note h = frame_small_training_set
  have "metrics (frame_small ! 1) ''llm_f1'' = None"
    by (simp add: frame_small_def mk_run_def)
  moreover have "1 < length frame_small"
    by (simp add: frame_small_def)
  ultimately show ?thesis
    using h training_keeps_rows_and_zero_fills_target [OF h] by simp
qed

text \<open>
  C10: a numeric parameter column that is missing in every record stays missing in the
  encoded table: its median is undefined, so nothing is filled in.
\<close>

theorem all_missing_column_stays_missing:
  assumes "c \<in> set feature_cols"
    and "\<forall>r \<in> set df. params r c = None"
  shows "(c, replicate (length df) None) \<in> set (encode_features repr df feature_cols)"
proof -
  have cells: "col_cells df c = replicate (length df) None"
    using assms(2) by (rule all_missing_cells)
  have num: "is_numeric_dtype df c"
    by (simp add: is_numeric_dtype_def cells)
  have "fill_median (c, map (map_option to_real) (col_cells df c))
        = (c, replicate (length df) None)"
    by (simp add: fill_median_def cells dropna_all_missing median_def fillna_all_missing)
  moreover have "(c, map (map_option to_real) (col_cells df c))
        \<in> set (map (\<lambda>c. (c, map (map_option to_real) (col_cells df c)))
                 (filter (is_numeric_dtype df) feature_cols))"
    using assms(1) num by auto
  ultimately show ?thesis
    unfolding encode_features_def Let_def
    by (metis (no_types, lifting) Un_iff image_eqI set_append set_map)
qed

theorem all_missing_column_witness:
  "''top_k'' \<in> set [''alpha'', ''top_k'']
   \<and> params (mk_run [(''alpha'', Num 1)] [(''llm_f1'', 1/2)]) ''top_k'' = None
   \<and> params (mk_run [(''alpha'', Num 2)] []) ''top_k'' = None
   \<and> (''top_k'', [None, None]) \<in> set (encode_features repr_whole
         [mk_run [(''alpha'', Num 1)] [(''llm_f1'', 1/2)], mk_run [(''alpha'', Num 2)] []]
         [''alpha'', ''top_k''])"
  using all_missing_column_stays_missing [of "''top_k''" "[''alpha'', ''top_k'']"
         "[mk_run [(''alpha'', Num 1)] [(''llm_f1'', 1/2)], mk_run [(''alpha'', Num 2)] []]" repr_whole]
  by (simp add: mk_run_def)

section \<open>Properties of the parameter-space inference\<close>

lemma set_unique: "set (unique xs) = set xs"
  by (simp add: unique_def)

lemma distinct_unique: "distinct (unique xs)"
  by (simp add: unique_def)

lemma length_unique: "length (unique xs) = card (set xs)"
  by (metis distinct_card distinct_unique set_unique)

lemma sort_map_unique: "sort (map f (unique xs)) = sort (map f (remdups xs))"
proof -
  have "mset (unique xs) = mset (remdups xs)"
    using set_eq_iff_mset_eq_distinct [of "unique xs" "remdups xs"]
    by (simp add: distinct_unique set_unique)
  then have "mset (map f (unique xs)) = mset (map f (remdups xs))"
    by simp
  then show ?thesis
    by (metis mset_sort properties_for_sort sorted_sort)
qed

lemma whole_iff: "(x = real_of_int (round x)) = (x \<in> \<int>)"
  by (metis Ints_of_int Ints_cases round_of_int)

lemma all_whole_iff: "all_whole (map to_real vs) = (\<forall>x \<in> to_real ` set vs. x \<in> \<int>)"
  by (simp add: all_whole_def list_all_iff whole_iff)

lemma py_int_mono:
  assumes xy: "x \<le> y"
  shows "py_int x \<le> py_int y"
proof (cases "0 \<le> x")
  case True
  with xy show ?thesis by (simp add: py_int_def floor_mono)
next
  case False
  show ?thesis
  proof (cases "0 \<le> y")
    case True
    have "\<lceil>x\<rceil> \<le> 0" using False by (simp add: ceiling_le_iff)
    moreover have "0 \<le> \<lfloor>y\<rfloor>" using True by simp
    ultimately have "\<lceil>x\<rceil> \<le> \<lfloor>y\<rfloor>" by (rule order_trans)
    then show ?thesis using False True by (simp add: py_int_def)
  next
    case y: False
    with False xy show ?thesis by (simp add: py_int_def ceiling_mono)
  qed
qed

lemma map_of_map_filter:
  "map_of (List.map_filter (\<lambda>c. map_option (Pair c) (f c)) cs) col
     = (if col \<in> set cs then f col else None)"
  by (induction cs) (auto split: option.splits)

lemma if_less_collapse:
  fixes lo hi :: "'a::linorder"
  assumes "lo \<le> hi"
  shows "(if lo < hi then A else B) = (if lo = hi then B else A)"
  using assms by auto

lemma infer_domain_spec:
  assumes "dropna (col_cells df col) \<noteq> []"
  shows "infer_domain repr df col = Some (spec_domain repr df col)"
proof -
  let ?s = "dropna (col_cells df col)"
  let ?N = "to_real ` set ?s"
  have fin: "finite ?N" "?N \<noteq> {}" using assms by auto
  have le: "Min ?N \<le> Max ?N" using fin by simp
  have ile: "py_int (Min ?N) \<le> py_int (Max ?N)" using le by (rule py_int_mono)
  have num: "(\<not> is_numeric_dtype df col) = (\<exists>v \<in> set (col_cells df col). is_str v)"
    by (simp add: is_numeric_dtype_def)
  have img: "set (map to_real ?s) = ?N" by simp
  show ?thesis
    unfolding infer_domain_def spec_domain_def Let_def num length_unique sort_map_unique
      all_whole_iff collapse_def img if_less_collapse [OF le] if_less_collapse [OF ile]
    using assms by simp
qed

text \<open>
  C5: for every parameter with at least one observed value, the inferred domain is the
  one the specification describes: categorical with the sorted distinct observed values
  when the column is not numeric or has at most 5 distinct values; otherwise an integer
  range from the minimum to the maximum when all values are whole and at most 30 are
  distinct; otherwise a real range; a range with equal ends is a single-choice
  categorical domain.
\<close>

theorem infer_param_space_refines_spec:
  assumes "col \<in> set feature_cols" and "dropna (col_cells df col) \<noteq> []"
  shows "map_of (infer_param_space repr df feature_cols) col = Some (spec_domain repr df col)"
  using assms by (simp add: infer_param_space_def map_of_map_filter set_unique infer_domain_spec)

lemma frame_numeric_top_k:
  "spec_domain repr_whole frame_numeric ''top_k'' = IntRange 10 60"
  by (simp add: spec_domain_def dropna_def col_cells_def frame_numeric_def mk_run_def
      collapse_def py_int_def)

lemma frame_modes_mode:
  "spec_domain repr_whole frame_modes ''mode'' = Categorical [''a'', ''b'', ''c'']"
  by (simp add: spec_domain_def dropna_def col_cells_def frame_modes_def mk_run_def)

theorem infer_param_space_witness:
  "''top_k'' \<in> set [''alpha'', ''top_k'']
   \<and> dropna (col_cells frame_numeric ''top_k'') \<noteq> []
   \<and> map_of (infer_param_space repr_whole frame_numeric [''alpha'', ''top_k'']) ''top_k''
       = Some (IntRange 10 60)
   \<and> ''mode'' \<in> set [''mode'']
   \<and> dropna (col_cells frame_modes ''mode'') \<noteq> []
   \<and> map_of (infer_param_space repr_whole frame_modes [''mode'']) ''mode''
       = Some (Categorical [''a'', ''b'', ''c''])"
proof -
  have a: "''top_k'' \<in> set [''alpha'', ''top_k'']" by simp
  have b: "dropna (col_cells frame_numeric ''top_k'') \<noteq> []"
    by (simp add: dropna_def col_cells_def frame_numeric_def mk_run_def)
  have c: "''mode'' \<in> set [''mode'']" by simp
  have d: "dropna (col_cells frame_modes ''mode'') \<noteq> []"
    by (simp add: dropna_def col_cells_def frame_modes_def mk_run_def)
  show ?thesis
    using a b c d
      infer_param_space_refines_spec [OF a b, of repr_whole]
      infer_param_space_refines_spec [OF c d, of repr_whole]
    by (simp only: frame_numeric_top_k frame_modes_mode simp_thms)
qed

section \<open>Properties of the candidate recommender\<close>

lemma collect_Inr:
  "collect xs = Inr ys \<Longrightarrow> xs = map Inr ys"
proof (induction xs arbitrary: ys)
  case Nil
  then show ?case by simp
next
  case (Cons x xs)
  from Cons.prems obtain v vs where "x = Inr v" "collect xs = Inr vs" "ys = v # vs"
    by (auto split: sum.splits)
  with Cons.IH show ?case by simp
qed

lemma score_candidate_fst:
  "score_candidate repr parse predict X fcs cand = Inr t \<Longrightarrow> fst t = cand"
  by (auto simp: score_candidate_def split: sum.splits)

lemma scored_candidates:
  assumes "collect (map (score_candidate repr parse predict X fcs) cands) = Inr scored"
    and "t \<in> set scored"
  shows "fst t \<in> set cands"
proof -
  from collect_Inr [OF assms(1)]
  have "map (score_candidate repr parse predict X fcs) cands = map Inr scored" .
  then have "Inr t \<in> set (map (score_candidate repr parse predict X fcs) cands)"
    using assms(2) by simp
  then obtain c where "c \<in> set cands" "score_candidate repr parse predict X fcs c = Inr t"
    by auto
  then show ?thesis using score_candidate_fst by metis
qed

lemma set_dedup_by_key: "set (dedup_by_key repr fcs seen ts) \<subseteq> set ts"
  by (induction ts arbitrary: seen) (auto simp: Let_def)

lemma fallback_loop_keys:
  assumes "\<forall>t \<in> set result. config_key repr fcs (fst t) \<notin> set keys"
    and "t \<in> set (fallback_loop repr fcs keys n result ts)"
  shows "config_key repr fcs (fst t) \<notin> set keys"
  using assms
proof (induction ts arbitrary: result)
  case Nil
  then show ?case by simp
next
  case (Cons a ts)
  show ?case
  proof (cases "t_value a")
    case None
    with Cons show ?thesis by simp
  next
    case (Some v)
    define result' where "result' = (if config_key repr fcs (t_params a) \<notin> set keys
                          then result @ [(t_params a, v)] else result)"
    have inv: "\<forall>t \<in> set result'. config_key repr fcs (fst t) \<notin> set keys"
      using Cons.prems(1) by (auto simp: result'_def)
    show ?thesis
    proof (cases "n \<le> int (length result')")
      case True
      with Cons.prems(2) Some have "t \<in> set result'"
        by (simp add: result'_def)
      with inv show ?thesis by blast
    next
      case False
      with Cons.prems(2) Some have "t \<in> set (fallback_loop repr fcs keys n result' ts)"
        by (simp add: result'_def)
      with Cons.IH [OF inv] show ?thesis by blast
    qed
  qed
qed

lemma key_differs:
  assumes "config_key repr fcs cand \<noteq> row_key repr fcs r"
  shows "\<exists>c \<in> set fcs. py_str repr (config_get cand c) \<noteq> cell_str repr (params r c)"
proof (rule ccontr)
  assume "\<not> ?thesis"
  then have "map (\<lambda>c. py_str repr (config_get cand c)) fcs
           = map (\<lambda>c. cell_str repr (params r c)) fcs"
    by simp
  with assms show False by (simp add: config_key_def row_key_def)
qed

text \<open>
  What the filter of \<^verbatim>\<open>_suggest_next\<close> ensures: the key of a returned configuration is
  the key of no run, so in some feature column the text of the candidate is not the
  text of the run. The texts also differ where the candidate has no entry and the run
  no value (the empty text and \<^verbatim>\<open>nan\<close>), and where the candidate holds the integer of
  the float the run holds (\<^verbatim>\<open>60\<close> and \<^verbatim>\<open>60.0\<close>).
\<close>

lemma returned_keys_differ:
  assumes "suggest_next repr parse suggest study_trials space surrogate_model X_train
             feature_cols n df = Inr res"
    and "(cand, score) \<in> set res" and "r \<in> set df"
  shows "\<exists>c \<in> set feature_cols. py_str repr (config_get cand c) \<noteq> cell_str repr (params r c)"
proof -
  define keys where "keys = map (row_key repr feature_cols) df"
  define cands where "cands = filter (\<lambda>p. config_key repr feature_cols p \<notin> set keys)
                         (map (sample_config suggest space) [0..<nat (n * 40)])"
  define fb where "fb = fallback_loop repr feature_cols keys n []
                     (sort_key (\<lambda>t. - (case t_value t of None \<Rightarrow> 0 | Some v \<Rightarrow> v)) study_trials)"
  have unfold: "suggest_next repr parse suggest study_trials space surrogate_model X_train
             feature_cols n df =
      (if cands = [] then Inr []
         else (case (surrogate_model, X_train) of
            (Some predict, Some X) \<Rightarrow>
              (case collect (map (score_candidate repr parse predict X feature_cols) cands) of
                 Inl e \<Rightarrow> Inl e
               | Inr scored \<Rightarrow>
                   Inr (take (nat n)
                          (dedup_by_key repr feature_cols []
                             (sort_key (\<lambda>t. - snd t) scored))))
          | _ \<Rightarrow> Inr fb))"
    unfolding suggest_next_def keys_def cands_def fb_def Let_def by (rule refl)
  have new: "config_key repr feature_cols cand \<notin> set keys"
  proof (cases "cands = []")
    case True
    with assms(1) [unfolded unfold] assms(2) show ?thesis by simp
  next
    case False
    show ?thesis
    proof (cases "\<exists>predict X. surrogate_model = Some predict \<and> X_train = Some X")
      case True
      then obtain predict X where sm: "surrogate_model = Some predict" "X_train = Some X" by blast
      from assms(1) [unfolded unfold] False obtain scored where
        sc: "collect (map (score_candidate repr parse predict X feature_cols) cands) = Inr scored"
        and res: "res = take (nat n) (dedup_by_key repr feature_cols []
                             (sort_key (\<lambda>t. - snd t) scored))"
        by (auto simp: sm split: sum.splits)
      have "(cand, score) \<in> set (dedup_by_key repr feature_cols [] (sort_key (\<lambda>t. - snd t) scored))"
        using assms(2) res by (auto dest: in_set_takeD)
      then have "(cand, score) \<in> set scored"
        using set_dedup_by_key [of repr feature_cols "[]" "sort_key (\<lambda>t. - snd t) scored"]
        by auto
      then have "cand \<in> set cands"
        using scored_candidates [OF sc] by force
      then show ?thesis by (simp add: cands_def)
    next
      case nosur: False
      from assms(1) [unfolded unfold] False nosur have res: "res = fb"
        by (auto split: option.splits)
      show ?thesis
        using fallback_loop_keys [of "[]" repr feature_cols keys "(cand, score)" n] assms(2) res
        by (simp add: fb_def)
    qed
  qed
  then have "config_key repr feature_cols cand \<noteq> row_key repr feature_cols r"
    using assms(3) by (auto simp: keys_def)
  then show ?thesis by (rule key_differs)
qed

lemma example_scored_path:
  "suggest_next repr_whole (\<lambda>s. None) example_suggest [] example_space (Some (\<lambda>row. 1/2))
      (Some example_table) [''mode''] 1 frame_modes = Inr [([(''mode'', Str ''d'')], 1/2)]"
  by code_simp

text \<open>
  On the fallback path a past trial is returned when its text differs from the text of
  every row: here the trial holds the integer 60 and the frame the float 60.0.
\<close>

lemma example_fallback_path:
  "suggest_next repr_whole (\<lambda>s. None) example_suggest example_trials
      [(''top_k'', IntRange 10 60)] None None [''top_k''] 1 frame_numeric
     = Inr [([(''top_k'', IntV 60)], 6/10)]"
  by code_simp

lemma no_top_k_space:
  "infer_param_space repr_whole frame_no_top_k [''query_mode'', ''top_k'']
     = [(''query_mode'', Categorical [''a'', ''b''])]"
  by code_simp

lemma no_top_k_table:
  "encode_features repr_whole frame_no_top_k [''query_mode'', ''top_k'']
     = [(''top_k'', [None, None]),
        (''query_mode_a'', [Some 1, Some 0]), (''query_mode_b'', [Some 0, Some 1])]"
  by code_simp

lemma no_top_k_keys:
  "map (row_key repr_whole [''query_mode'', ''top_k'']) frame_no_top_k
     = [[''a'', ''nan''], [''b'', ''nan'']]"
  by code_simp

text \<open>
  C3 (the code diverges): two runs with the query modes \<^verbatim>\<open>a\<close> and \<^verbatim>\<open>b\<close>, neither of
  them giving \<^verbatim>\<open>topK\<close>, so that the column \<^verbatim>\<open>top_k\<close> holds no value and the parameter
  space has the query mode only. Asked for two suggestions, the recommender returns the
  two historical configurations, with a surrogate and on the fallback path: each
  returned candidate has the query mode of a run, and no value for \<^verbatim>\<open>top_k\<close>, as that
  run.
\<close>

theorem recommender_repeats_history:
  "phase3_suggestions repr_whole (\<lambda>s. None) example_suggest frame_no_top_k
       [''query_mode'', ''top_k''] ''llm_f1'' 2 (Some (\<lambda>row. 1/2))
       (Some (encode_features repr_whole frame_no_top_k [''query_mode'', ''top_k'']))
     = Inr [([(''query_mode'', Str ''a'')], 1/2), ([(''query_mode'', Str ''b'')], 1/2)]
   \<and> phase3_suggestions repr_whole (\<lambda>s. None) example_suggest frame_no_top_k
       [''query_mode'', ''top_k''] ''llm_f1'' 2 None None
     = Inr [([(''query_mode'', Str ''a'')], 1/2), ([(''query_mode'', Str ''b'')], 1/4)]
   \<and> identical_config repr_whole
         (infer_param_space repr_whole frame_no_top_k [''query_mode'', ''top_k''])
         [(''query_mode'', Str ''a'')] (frame_no_top_k ! 0)
   \<and> identical_config repr_whole
         (infer_param_space repr_whole frame_no_top_k [''query_mode'', ''top_k''])
         [(''query_mode'', Str ''b'')] (frame_no_top_k ! 1)
   \<and> map_of [(''query_mode'', Str ''a'')] ''top_k'' = params (frame_no_top_k ! 0) ''top_k''
   \<and> map_of [(''query_mode'', Str ''b'')] ''top_k'' = params (frame_no_top_k ! 1) ''top_k''"
  by code_simp

text \<open>
  The same holds whatever the sampler draws and whatever the surrogate predicts. A
  candidate has no value for \<^verbatim>\<open>top_k\<close>, so its key ends in the empty text where the key
  of every run ends in \<^verbatim>\<open>nan\<close>: no candidate is discarded. Without a surrogate the past
  trials themselves are returned; with one, every candidate drawn from the domain of
  the query mode is a historical configuration.
\<close>

lemma no_top_k_trials_any:
  "add_past_trials repr_whole parse frame_no_top_k
      [(''query_mode'', Categorical [''a'', ''b''])] ''llm_f1''
     = Inr [\<lparr>t_params = [(''query_mode'', Str ''a'')], t_value = Some (1/2)\<rparr>,
            \<lparr>t_params = [(''query_mode'', Str ''b'')], t_value = Some (1/4)\<rparr>]"
  by (simp add: add_past_trials_def past_trial_def past_value_def frame_no_top_k_def mk_run_def
      del: not_None_eq)

lemma no_top_k_sample_key:
  "config_key repr_whole [''query_mode'', ''top_k'']
      (sample_config suggest [(''query_mode'', Categorical [''a'', ''b''])] i)
     \<notin> set (map (row_key repr_whole [''query_mode'', ''top_k'']) frame_no_top_k)"
  unfolding no_top_k_keys
  by (simp add: config_key_def sample_config_def config_get_def)

lemma no_top_k_candidates:
  "filter (\<lambda>p. config_key repr_whole [''query_mode'', ''top_k''] p
                 \<notin> set (map (row_key repr_whole [''query_mode'', ''top_k'']) frame_no_top_k))
      (map (sample_config suggest [(''query_mode'', Categorical [''a'', ''b''])]) is)
     = map (sample_config suggest [(''query_mode'', Categorical [''a'', ''b''])]) is"
  using no_top_k_sample_key by (induction "is") simp_all

lemma no_top_k_fallback_loop:
  "fallback_loop repr_whole [''query_mode'', ''top_k'']
      (map (row_key repr_whole [''query_mode'', ''top_k'']) frame_no_top_k) 2 []
      (sort_key (\<lambda>t. - (case t_value t of None \<Rightarrow> 0 | Some v \<Rightarrow> v))
         [\<lparr>t_params = [(''query_mode'', Str ''a'')], t_value = Some (1/2)\<rparr>,
          \<lparr>t_params = [(''query_mode'', Str ''b'')], t_value = Some (1/4)\<rparr>])
     = [([(''query_mode'', Str ''a'')], 1/2), ([(''query_mode'', Str ''b'')], 1/4)]"
  by code_simp

lemma fallback_repeats_history_any_sampler:
  "phase3_suggestions repr_whole parse suggest frame_no_top_k
       [''query_mode'', ''top_k''] ''llm_f1'' 2 None None
     = Inr [([(''query_mode'', Str ''a'')], 1/2), ([(''query_mode'', Str ''b'')], 1/4)]"
proof -
  have ne: "map (sample_config suggest [(''query_mode'', Categorical [''a'', ''b''])])
              [0..<nat (2 * 40)] \<noteq> []"
    by simp
  have "suggest_next repr_whole parse suggest
          [\<lparr>t_params = [(''query_mode'', Str ''a'')], t_value = Some (1/2)\<rparr>,
           \<lparr>t_params = [(''query_mode'', Str ''b'')], t_value = Some (1/4)\<rparr>]
          [(''query_mode'', Categorical [''a'', ''b''])] None None
          [''query_mode'', ''top_k''] 2 frame_no_top_k
        = Inr [([(''query_mode'', Str ''a'')], 1/2), ([(''query_mode'', Str ''b'')], 1/4)]"
    unfolding suggest_next_def Let_def no_top_k_candidates no_top_k_fallback_loop
    using ne by simp
  then show ?thesis
    unfolding phase3_suggestions_def no_top_k_space Let_def no_top_k_trials_any
    by simp
qed

lemma collect_map_Inr:
  "(\<And>x. x \<in> set xs \<Longrightarrow> f x = Inr (g x)) \<Longrightarrow> collect (map f xs) = Inr (map g xs)"
  by (induction xs) simp_all

lemma no_top_k_score:
  assumes "v = Str ''a'' \<or> v = Str ''b''"
  shows "\<exists>row. score_candidate repr_whole parse predict
           (encode_features repr_whole frame_no_top_k [''query_mode'', ''top_k''])
           [''query_mode'', ''top_k''] [(''query_mode'', v)]
         = Inr ([(''query_mode'', v)], predict row)"
  using assms unfolding no_top_k_table
  by (auto simp: score_candidate_def config_get_def)

lemma dedup_by_key_nonempty:
  "ts \<noteq> [] \<Longrightarrow> dedup_by_key repr fcs [] ts \<noteq> []"
  by (cases ts) (simp_all add: Let_def)

lemma no_top_k_identical:
  assumes "v = Str ''a'' \<or> v = Str ''b''"
  shows "repeats_history repr_whole [(''query_mode'', Categorical [''a'', ''b''])]
           frame_no_top_k ([(''query_mode'', v)], score)"
  using assms
  by (auto simp: repeats_history_def identical_config_def config_get_def cell_str_def
      frame_no_top_k_def mk_run_def)

lemma surrogate_repeats_history_any_sampler:
  assumes draws: "\<And>i. suggest i ''query_mode'' (Categorical [''a'', ''b'']) = Str ''a''
                     \<or> suggest i ''query_mode'' (Categorical [''a'', ''b'']) = Str ''b''"
    and n: "0 < n"
  shows "\<exists>res. phase3_suggestions repr_whole parse suggest frame_no_top_k
                 [''query_mode'', ''top_k''] ''llm_f1'' n (Some predict)
                 (Some (encode_features repr_whole frame_no_top_k [''query_mode'', ''top_k'']))
               = Inr res
             \<and> res \<noteq> []
             \<and> list_all (repeats_history repr_whole
                   (infer_param_space repr_whole frame_no_top_k [''query_mode'', ''top_k''])
                   frame_no_top_k) res"
proof -
  define fcs where "fcs = [''query_mode'', ''top_k'']"
  define space where "space = [(''query_mode'', Categorical [''a'', ''b''])]"
  define X where "X = encode_features repr_whole frame_no_top_k fcs"
  define cands where "cands = map (sample_config suggest space) [0..<nat (n * 40)]"
  have cand_form: "\<exists>v. c = [(''query_mode'', v)] \<and> (v = Str ''a'' \<or> v = Str ''b'')"
    if "c \<in> set cands" for c
    using that draws by (auto simp: cands_def sample_config_def space_def)
  have "\<forall>c \<in> set cands. \<exists>t. score_candidate repr_whole parse predict X fcs c = Inr t"
  proof
    fix c assume "c \<in> set cands"
    then obtain v where c: "c = [(''query_mode'', v)]" and v: "v = Str ''a'' \<or> v = Str ''b''"
      using cand_form by blast
    from no_top_k_score [OF v, of parse predict]
    show "\<exists>t. score_candidate repr_whole parse predict X fcs c = Inr t"
      unfolding X_def fcs_def c by blast
  qed
  then obtain g where g: "\<And>c. c \<in> set cands
      \<Longrightarrow> score_candidate repr_whole parse predict X fcs c = Inr (g c)"
    by metis
  define scored where "scored = map g cands"
  have sc: "collect (map (score_candidate repr_whole parse predict X fcs) cands) = Inr scored"
    unfolding scored_def using g by (rule collect_map_Inr)
  have cne: "cands \<noteq> []"
    using n by (simp add: cands_def)
  define res where "res = take (nat n) (dedup_by_key repr_whole fcs []
                             (sort_key (\<lambda>t. - snd t) scored))"
  have sorted_ne: "sort_key (\<lambda>t. - snd t) scored \<noteq> []"
  proof
    assume "sort_key (\<lambda>t. - snd t) scored = []"
    then have "length (sort_key (\<lambda>t. - snd t) scored) = 0"
      by (simp only: list.size)
    then have "length scored = 0"
      by (simp only: length_sort)
    then show False
      using cne by (simp add: scored_def)
  qed
  have res_ne: "res \<noteq> []"
    unfolding res_def using dedup_by_key_nonempty [OF sorted_ne] n by simp
  have "suggest_next repr_whole parse suggest
          [\<lparr>t_params = [(''query_mode'', Str ''a'')], t_value = Some (1/2)\<rparr>,
           \<lparr>t_params = [(''query_mode'', Str ''b'')], t_value = Some (1/4)\<rparr>]
          [(''query_mode'', Categorical [''a'', ''b''])] (Some predict) (Some X)
          [''query_mode'', ''top_k''] n frame_no_top_k = Inr res"
    unfolding suggest_next_def Let_def no_top_k_candidates
    using cne sc
    by (simp add: cands_def space_def fcs_def res_def)
  then have result: "phase3_suggestions repr_whole parse suggest frame_no_top_k
                 fcs ''llm_f1'' n (Some predict) (Some X) = Inr res"
    unfolding phase3_suggestions_def fcs_def no_top_k_space Let_def no_top_k_trials_any
    by simp
  have "repeats_history repr_whole space frame_no_top_k t" if "t \<in> set res" for t
  proof -
    from that have "t \<in> set (dedup_by_key repr_whole fcs [] (sort_key (\<lambda>t. - snd t) scored))"
      unfolding res_def by (rule in_set_takeD)
    then have "t \<in> set scored"
      using set_dedup_by_key [of repr_whole fcs "[]" "sort_key (\<lambda>t. - snd t) scored"] by auto
    then have "fst t \<in> set cands"
      using scored_candidates [OF sc] by blast
    then obtain v where c: "fst t = [(''query_mode'', v)]" and v: "v = Str ''a'' \<or> v = Str ''b''"
      using cand_form by blast
    from no_top_k_identical [OF v, of "snd t"] c
    show ?thesis by (simp add: space_def repeats_history_def)
  qed
  then have "list_all (repeats_history repr_whole space frame_no_top_k) res"
    by (simp add: list_all_iff)
  with result res_ne show ?thesis
    unfolding fcs_def X_def space_def no_top_k_space by blast
qed

section \<open>Properties of the aggregate ranking\<close>

lemma length_mean_abs: "length (mean_abs k shap) = k"
  by (simp add: mean_abs_def)

lemma sorts_stable_argsort: "sorts stable_argsort"
  by (simp add: sorts_def stable_argsort_def)

lemma zip_as_map:
  assumes "length ys = length xs"
  shows "map (\<lambda>i. (xs ! i, ys ! i)) [0..<length xs] = zip xs ys"
  using assms by (intro nth_equalityI) simp_all

lemma imp_df_perm:
  assumes "sorts argsort"
  shows "mset (imp_df argsort features shap) = mset (zip features (mean_abs (length features) shap))"
proof -
  let ?imp = "mean_abs (length features) shap"
  let ?f = "\<lambda>i. (features ! i, ?imp ! i)"
  have "mset (argsort ?imp) = mset [0..<length features]"
    using assms by (simp add: sorts_def length_mean_abs)
  then have "mset (map ?f (argsort ?imp)) = mset (map ?f [0..<length features])"
    by (metis mset_map)
  also have "map ?f [0..<length features] = zip features ?imp"
    by (rule zip_as_map) (simp add: length_mean_abs)
  finally show ?thesis by (simp add: imp_df_def Let_def)
qed

lemma imp_df_sorted:
  assumes "sorts argsort"
  shows "sorted (map snd (imp_df argsort features shap))"
proof -
  let ?imp = "mean_abs (length features) shap"
  have "sorted (map (\<lambda>i. ?imp ! i) (argsort ?imp))"
    using assms by (simp add: sorts_def)
  moreover have "map snd (imp_df argsort features shap) = map (\<lambda>i. ?imp ! i) (argsort ?imp)"
    by (simp add: imp_df_def Let_def comp_def)
  ultimately show ?thesis by simp
qed

lemma descending_rev:
  assumes "sorted (map snd t)"
  shows "descending (rev t)"
proof -
  let ?r = "rev t"
  have "sorted (rev (map snd ?r))" using assms by (simp add: rev_map)
  then have mono: "\<forall>i j. i \<le> j \<longrightarrow> j < length (map snd ?r)
                \<longrightarrow> map snd ?r ! j \<le> map snd ?r ! i"
    by (simp only: sorted_rev_iff_nth_mono)
  show ?thesis
    unfolding descending_def
  proof (intro allI impI)
    fix i j
    assume ij: "i < j \<and> j < length ?r"
    then have "i \<le> j" and j: "j < length (map snd ?r)" and i: "i < length ?r"
      by simp_all
    with mono have "map snd ?r ! j \<le> map snd ?r ! i" by blast
    then show "snd (?r ! j) \<le> snd (?r ! i)"
      using ij i by (simp only: nth_map)
  qed
qed

text \<open>
  C7 (amended): with any sorting routine, the ranking lists every feature once with its
  mean absolute contribution, in descending order of that value. The feature name is
  no sort key: the order of features with equal values is the routine's.
\<close>

theorem ranking_descending:
  assumes "sorts argsort"
  shows "descending (feature_ranking argsort features shap)
       \<and> mset (feature_ranking argsort features shap)
           = mset (zip features (mean_abs (length features) shap))"
  using assms
  by (simp add: feature_ranking_def descending_rev imp_df_sorted imp_df_perm)

lemma example_importance:
  "mean_abs (length [''top_k'', ''mode_a'']) [[1/10, - 3/10], [- 2/10, 1/10]] = [3/20, 1/5]"
  by code_simp

lemma example_order: "stable_argsort [3/20, 1/5] = [0, 1]"
  by code_simp

lemma example_ranking:
  "feature_ranking stable_argsort [''top_k'', ''mode_a''] [[1/10, - 3/10], [- 2/10, 1/10]]
     = [(''mode_a'', 1/5), (''top_k'', 3/20)]"
  unfolding feature_ranking_def imp_df_def Let_def example_importance example_order by simp

theorem ranking_descending_witness:
  "sorts stable_argsort
   \<and> feature_ranking stable_argsort [''top_k'', ''mode_a''] [[1/10, - 3/10], [- 2/10, 1/10]]
       = [(''mode_a'', 1/5), (''top_k'', 3/20)]
   \<and> descending [(''mode_a'', 1/5), (''top_k'', 3/20)]"
proof -
  from ranking_descending [OF sorts_stable_argsort, of "[''top_k'', ''mode_a'']"
      "[[1/10, - 3/10], [- 2/10, 1/10]]"]
  have "descending [(''mode_a'', 1/5), (''top_k'', 3/20)]"
    unfolding example_ranking by (rule conjunct1)
  with sorts_stable_argsort example_ranking show ?thesis by (intro conjI)
qed

text \<open>
  No sorting routine makes the ranking break ties by name: on two features of equal
  importance it depends on the order of the columns alone, and one of the two orders
  puts \<^verbatim>\<open>b\<close> before \<^verbatim>\<open>a\<close>.
\<close>

lemma zero_importance: "mean_abs (Suc (Suc 0)) [[0, 0], [0, 0]] = [0, 0]"
  by code_simp

lemma argsort_permutes: assumes s: "sorts argsort" shows "mset (argsort [0, 0]) = mset [0..<length [0::real, 0]]"
  using s unfolding sorts_def by blast

lemma two_positions:
  assumes "mset xs = mset [0::nat, 1]"
  shows "xs = [0, 1] \<or> xs = [1, 0]"
proof -
  have len: "length xs = 2" using mset_eq_length [OF assms] by simp
  have st: "set xs = {0, 1}" using mset_eq_setD [OF assms] by simp
  from len obtain a b where xs: "xs = [a, b]"
    by (auto simp: length_Suc_conv numeral_2_eq_2)
  have "distinct xs" using assms by (metis distinct.simps(2) distinct_singleton
        empty_iff insert_iff list.set(1) list.set(2) mset_eq_imp_distinct_iff zero_neq_one)
  with xs st show ?thesis by (auto simp: doubleton_eq_iff)
qed

lemma two_indices: "[0..<length [0::real, 0]] = [0, 1]"
  by code_simp

lemma argsort_two: assumes s: "sorts argsort" shows "argsort [0, 0] = [0, 1] \<or> argsort [0, 0] = [1, 0]"
proof -
  have "mset (argsort [0, 0]) = mset [0, 1]"
    using argsort_permutes [OF s] unfolding two_indices .
  then show ?thesis by (rule two_positions)
qed

theorem ties_not_broken_by_name:
  "\<not> (\<exists>argsort. sorts argsort
        \<and> (\<forall>features shap. ties_by_name (feature_ranking argsort features shap)))"
proof
  assume "\<exists>argsort. sorts argsort
        \<and> (\<forall>features shap. ties_by_name (feature_ranking argsort features shap))"
  then obtain argsort where s: "sorts argsort"
    and t: "\<And>features shap. ties_by_name (feature_ranking argsort features shap)"
    by blast
  have nt: "\<not> ties_by_name [(''b'', 0 :: real), (''a'', 0)]"
  proof
    assume a: "ties_by_name [(''b'', 0 :: real), (''a'', 0)]"
    from a [unfolded ties_by_name_def, rule_format, of 0 1] show False by simp
  qed
  from argsort_two [OF s] show False
  proof
    assume "argsort [0, 0] = [0, 1]"
    then have "feature_ranking argsort [''a'', ''b''] [[0, 0], [0, 0]] = [(''b'', 0), (''a'', 0)]"
      by (simp add: feature_ranking_def imp_df_def zero_importance Let_def)
    with t [of "[''a'', ''b'']" "[[0, 0], [0, 0]]"] have "ties_by_name [(''b'', 0 :: real), (''a'', 0)]"
      by (simp only:)
    with nt show False by (rule notE)
  next
    assume "argsort [0, 0] = [1, 0]"
    then have "feature_ranking argsort [''b'', ''a''] [[0, 0], [0, 0]] = [(''b'', 0), (''a'', 0)]"
      by (simp add: feature_ranking_def imp_df_def zero_importance Let_def)
    with t [of "[''b'', ''a'']" "[[0, 0], [0, 0]]"] have "ties_by_name [(''b'', 0 :: real), (''a'', 0)]"
      by (simp only:)
    with nt show False by (rule notE)
  qed
qed

section \<open>Properties of the causal estimator\<close>

text \<open>
  C2 (amended): the guard counts the runs of the frame, with or without a target: fewer
  than 6 runs are declined with a reason and nothing is raised; 6 runs or more are
  never declined for their number, however many of them have a target.
\<close>

theorem run_count_guard:
  "(length df < 6 \<longrightarrow>
      phase4_prepare inst df fcs target tc
        = Declined (if inst then TooFewRuns (length df) else DowhyMissing))
   \<and> (inst \<and> 6 \<le> length df \<longrightarrow>
        phase4_prepare inst df fcs target tc \<noteq> Declined DowhyMissing
        \<and> (\<forall>k. phase4_prepare inst df fcs target tc \<noteq> Declined (TooFewRuns k)))"
  by (auto simp: phase4_prepare_def Let_def split: option.splits sum.splits prod.splits)

lemma frame_binary_feats: "binary_feats frame_binary [''rerank''] = [''rerank'']"
  by code_simp

lemma frame_binary_auto: "auto_treatment frame_binary [''rerank''] ''llm_f1'' = Some (''rerank'', None)"
  by (simp add: auto_treatment_def frame_binary_feats)

lemma frame_binary_codes:
  "binarize frame_binary ''llm_f1'' ''rerank'' None = Inr [Some 1, Some 0, Some 0, Some 1, Some 0]"
  by code_simp

lemma frame_binary_length: "length frame_binary = 6"
  by (simp add: frame_binary_def)

lemma frame_binary_prepared:
  "phase4_prepare True frame_binary [''rerank''] ''llm_f1'' None
   = Prepared \<lparr>treatment = ''rerank'', positive_value = None,
       rows = df_dw frame_binary ''llm_f1'',
       treatment_values = [Some 1, Some 0, Some 0, Some 1, Some 0]\<rparr>"
  by (simp add: phase4_prepare_def frame_binary_auto frame_binary_codes frame_binary_length)

theorem run_count_guard_witness:
  "length frame_small < 6
   \<and> phase4_prepare True frame_small [''top_k''] ''llm_f1'' None = Declined (TooFewRuns 3)
   \<and> 6 \<le> length frame_binary
   \<and> phase4_prepare True frame_binary [''rerank''] ''llm_f1'' None \<noteq> Declined (TooFewRuns 6)"
proof -
  have s: "length frame_small = 3" by (simp add: frame_small_def)
  show ?thesis
    using run_count_guard [of frame_small True "[''top_k'']" "''llm_f1''" None]
      run_count_guard [of frame_binary True "[''rerank'']" "''llm_f1''" None]
    by (simp add: s frame_binary_length)
qed

text \<open>
  Six runs of which five have a target are not declined: the estimation is prepared on
  the five rows.
\<close>

theorem six_runs_five_targets_not_declined:
  "length frame_binary = 6
   \<and> length (filter (\<lambda>r. metrics r ''llm_f1'' \<noteq> None) frame_binary) = 5
   \<and> phase4_prepare True frame_binary [''rerank''] ''llm_f1'' None
       = Prepared \<lparr>treatment = ''rerank'', positive_value = None,
           rows = df_dw frame_binary ''llm_f1'',
           treatment_values = [Some 1, Some 0, Some 0, Some 1, Some 0]\<rparr>"
proof -
  have "length (filter (\<lambda>r. metrics r ''llm_f1'' \<noteq> None) frame_binary) = 5"
    by code_simp
  with frame_binary_length frame_binary_prepared show ?thesis by blast
qed

lemma category_pairs_feat:
  "fv \<in> set (category_pairs df feats) \<Longrightarrow> fst fv \<in> set feats"
  by (auto simp: category_pairs_def)

lemma sort_key_hd_min:
  assumes "sort_key f xs = c # cs"
  shows "c \<in> set xs \<and> (\<forall>x \<in> set xs. f c \<le> f x)"
proof -
  have "sorted (map f (c # cs))" using assms sorted_sort_key [of f xs] by simp
  moreover have "set (c # cs) = set xs" using assms set_sort [of f xs] by simp
  ultimately show ?thesis by auto
qed

lemma binarize_category:
  assumes "\<not> is_numeric_dtype df t"
  shows "binarize df target t (Some p)
         = Inr (map (\<lambda>r. Some (if params r t = Some p then 1 else 0)) (df_dw df target))"
  using assms by (simp add: binarize_def col_cells_def Let_def)

lemma binarize_median:
  assumes "is_numeric_dtype df t" and "2 < nunique (col_cells (df_dw df target) t)"
  shows "\<exists>m. median (map to_real (dropna (col_cells (df_dw df target) t))) = Some m
           \<and> binarize df target t pos
              = Inr (map (\<lambda>r. case params r t of None \<Rightarrow> Some 0
                                | Some v \<Rightarrow> Some (if m < to_real v then 1 else 0))
                       (df_dw df target))"
proof -
  have "dropna (col_cells (df_dw df target) t) \<noteq> []"
    using assms(2) by (auto simp: nunique_def unique_def)
  then obtain m where m: "median (map to_real (dropna (col_cells (df_dw df target) t))) = Some m"
    by (auto simp: median_def Let_def)
  have "binarize df target t pos
              = Inr (map (\<lambda>r. case params r t of None \<Rightarrow> Some 0
                                | Some v \<Rightarrow> Some (if m < to_real v then 1 else 0))
                       (df_dw df target))"
    using assms m by (simp add: binarize_def Let_def col_cells_def comp_def)
  with m show ?thesis by blast
qed

lemma find_filter_hd:
  "List.find P xs = (case filter P xs of [] \<Rightarrow> None | x # ys \<Rightarrow> Some x)"
  by (induction xs) auto

lemma find_filter: "List.find P (filter Q xs) = List.find (\<lambda>x. Q x \<and> P x) xs"
  by (induction xs) auto

lemma find_cong_set:
  assumes "\<And>x. x \<in> set xs \<Longrightarrow> P x = Q x"
  shows "List.find P xs = List.find Q xs"
  using assms by (induction xs) auto

lemma ex_greatest:
  fixes g :: "'a \<Rightarrow> real"
  assumes "xs \<noteq> []"
  shows "\<exists>p \<in> set xs. \<forall>q \<in> set xs. g q \<le> g p"
proof -
  have fin: "finite (g ` set xs)" and ne: "g ` set xs \<noteq> {}" using assms by auto
  from Max_in [OF fin ne] obtain p where p: "p \<in> set xs" "g p = Max (g ` set xs)" by auto
  have "\<forall>q \<in> set xs. g q \<le> g p"
    using Max_ge [OF fin] p(2) by auto
  with p(1) show ?thesis by blast
qed

text \<open>The loop with its strict comparison keeps the first of the greatest.\<close>

lemma foldl_step_first_max:
  fixes g :: "'a \<Rightarrow> real" and h :: "'a \<Rightarrow> 'b"
  shows "foldl (\<lambda>best p. if fst best < g p then (g p, h p) else best) (d, F) ps
       = (case List.find (\<lambda>p. d < g p \<and> (\<forall>q \<in> set ps. g q \<le> g p)) ps of
            None \<Rightarrow> (d, F) | Some p \<Rightarrow> (g p, h p))"
proof (induction ps arbitrary: d F)
  case Nil
  then show ?case by simp
next
  case (Cons x xs)
  show ?case
  proof (cases "d < g x")
    case True
    note dx = True
    show ?thesis
    proof (cases "\<forall>q \<in> set xs. g q \<le> g x")
      case True
      then have "List.find (\<lambda>p. g x < g p \<and> (\<forall>q \<in> set xs. g q \<le> g p)) xs = None"
        by (auto simp: find_None_iff)
      with dx True show ?thesis by (simp add: Cons.IH)
    next
      case False
      then obtain q0 where q0: "q0 \<in> set xs" "g x < g q0" by force
      have "List.find (\<lambda>p. g x < g p \<and> (\<forall>q \<in> set xs. g q \<le> g p)) xs
          = List.find (\<lambda>p. d < g p \<and> (\<forall>q \<in> set (x # xs). g q \<le> g p)) xs"
      proof (rule find_cong_set)
        fix p assume "p \<in> set xs"
        show "(g x < g p \<and> (\<forall>q \<in> set xs. g q \<le> g p))
            = (d < g p \<and> (\<forall>q \<in> set (x # xs). g q \<le> g p))"
          using dx q0 by (auto intro: less_le_trans less_trans dest: bspec [of _ _ q0])
      qed
      moreover have "List.find (\<lambda>p. d < g p \<and> (\<forall>q \<in> set (x # xs). g q \<le> g p)) xs \<noteq> None"
      proof -
        from q0(1) have "xs \<noteq> []" by auto
        from ex_greatest [OF this, of g] obtain p where
          p: "p \<in> set xs" "\<forall>q \<in> set xs. g q \<le> g p" by blast
        with q0 have "g x < g p" by (auto intro: less_le_trans)
        with dx p have "d < g p \<and> (\<forall>q \<in> set (x # xs). g q \<le> g p)" by auto
        with p(1) show ?thesis by (auto simp: find_None_iff)
      qed
      ultimately show ?thesis using dx False by (auto simp: Cons.IH)
    qed
  next
    case False
    have "List.find (\<lambda>p. d < g p \<and> (\<forall>q \<in> set xs. g q \<le> g p)) xs
        = List.find (\<lambda>p. d < g p \<and> (\<forall>q \<in> set (x # xs). g q \<le> g p)) xs"
    proof (rule find_cong_set)
      fix p assume "p \<in> set xs"
      show "(d < g p \<and> (\<forall>q \<in> set xs. g q \<le> g p))
          = (d < g p \<and> (\<forall>q \<in> set (x # xs). g q \<le> g p))"
        using False by auto
    qed
    with False show ?thesis by (simp add: Cons.IH)
  qed
qed

lemma foldl_skip:
  "foldl (\<lambda>a x. if P x then f a x else a) a xs = foldl f a (filter P xs)"
  by (induction xs arbitrary: a) auto

lemma first_max_above:
  fixes g :: "'a \<Rightarrow> real"
  shows "first_max g (filter (\<lambda>p. d < g p) xs)
       = List.find (\<lambda>p. d < g p \<and> (\<forall>q \<in> set xs. g q \<le> g p)) xs"
proof -
  have "first_max g (filter (\<lambda>p. d < g p) xs)
      = List.find (\<lambda>p. d < g p \<and> (\<forall>q \<in> set (filter (\<lambda>p. d < g p) xs). g q \<le> g p)) xs"
    by (simp add: first_max_def find_filter)
  also have "\<dots> = List.find (\<lambda>p. d < g p \<and> (\<forall>q \<in> set xs. g q \<le> g p)) xs"
  proof (rule find_cong_set)
    fix p assume "p \<in> set xs"
    show "(d < g p \<and> (\<forall>q \<in> set (filter (\<lambda>p. d < g p) xs). g q \<le> g p))
        = (d < g p \<and> (\<forall>q \<in> set xs. g q \<le> g p))"
    proof (cases "d < g p")
      case True
      have "(\<forall>q \<in> set (filter (\<lambda>p. d < g p) xs). g q \<le> g p) = (\<forall>q \<in> set xs. g q \<le> g p)"
      proof
        assume a: "\<forall>q \<in> set (filter (\<lambda>p. d < g p) xs). g q \<le> g p"
        show "\<forall>q \<in> set xs. g q \<le> g p"
        proof
          fix q assume q: "q \<in> set xs"
          show "g q \<le> g p"
          proof (cases "d < g q")
            case True
            with a q show ?thesis by simp
          next
            case False
            with \<open>d < g p\<close> show ?thesis by simp
          qed
        qed
      next
        assume "\<forall>q \<in> set xs. g q \<le> g p"
        then show "\<forall>q \<in> set (filter (\<lambda>p. d < g p) xs). g q \<le> g p" by simp
      qed
      then show ?thesis by simp
    next
      case False
      then show ?thesis by simp
    qed
  qed
  finally show ?thesis .
qed

lemma consider_category_step:
  "consider_category df target
     = (\<lambda>best fv. if 2 \<le> length (group_targets df target (fst fv) (snd fv))
          then (if fst best < delta df target fv
                then (delta df target fv, Some (fst fv), Some (snd fv)) else best)
          else best)"
  by (intro ext) (simp add: consider_category_def)

lemma best_category_first_max:
  "best_category df target (cat_feats df fcs)
     = (case first_max (delta df target)
               (filter (\<lambda>fv. - 999 < delta df target fv) (eligible df target fcs)) of
          None \<Rightarrow> (- 999, None, None)
        | Some fv \<Rightarrow> (delta df target fv, Some (fst fv), Some (snd fv)))"
  unfolding best_category_def consider_category_step foldl_skip first_max_above
    eligible_def [symmetric]
  by (rule foldl_step_first_max)

lemma sorted_head_first_min:
  fixes f :: "'a \<Rightarrow> real"
  shows "(case sort_key f xs of [] \<Rightarrow> None | c # cs \<Rightarrow> Some c)
       = List.find (\<lambda>x. \<forall>y \<in> set xs. f x \<le> f y) xs"
proof (cases "sort_key f xs")
  case Nil
  then have "xs = []" by (metis length_0_conv length_sort)
  with Nil show ?thesis by simp
next
  case (Cons c cs)
  have mn: "\<forall>x \<in> set xs. f c \<le> f x"
    using sort_key_hd_min [OF Cons] by blast
  have "filter (\<lambda>y. f y = f c) (sort_key f xs) = filter (\<lambda>y. f y = f c) xs"
    by (rule sort_key_stable)
  then have "filter (\<lambda>y. f y = f c) xs = c # filter (\<lambda>y. f y = f c) cs"
    by (simp add: Cons)
  then have "List.find (\<lambda>y. f y = f c) xs = Some c"
    by (simp add: find_filter_hd)
  moreover have "List.find (\<lambda>x. \<forall>y \<in> set xs. f x \<le> f y) xs = List.find (\<lambda>y. f y = f c) xs"
  proof (rule find_cong_set)
    fix x assume x: "x \<in> set xs"
    have c: "c \<in> set xs" using sort_key_hd_min [OF Cons] by blast
    show "(\<forall>y \<in> set xs. f x \<le> f y) = (f x = f c)"
    proof
      assume "\<forall>y \<in> set xs. f x \<le> f y"
      with c have "f x \<le> f c" by blast
      moreover from mn x have "f c \<le> f x" by blast
      ultimately show "f x = f c" by simp
    next
      assume "f x = f c"
      with mn show "\<forall>y \<in> set xs. f x \<le> f y" by simp
    qed
  qed
  ultimately show ?thesis by (simp add: Cons)
qed

lemma num_varying_first_max:
  "(case num_varying df fcs of [] \<Rightarrow> None | c # cs \<Rightarrow> Some (c, None))
     = (case first_max (col_std df)
               (filter (\<lambda>c. is_numeric_dtype df c \<and> 1 < nunique (col_cells df c)) fcs) of
          None \<Rightarrow> None | Some c \<Rightarrow> Some (c, None))"
proof -
  let ?N = "filter (\<lambda>c. is_numeric_dtype df c \<and> 1 < nunique (col_cells df c)) fcs"
  let ?f = "\<lambda>c. - std (map to_real (dropna (col_cells df c)))"
  have "first_max (col_std df) ?N = List.find (\<lambda>x. \<forall>y \<in> set ?N. ?f x \<le> ?f y) ?N"
    by (simp add: first_max_def col_std_def)
  also have "\<dots> = (case sort_key ?f ?N of [] \<Rightarrow> None | c # cs \<Rightarrow> Some c)"
    by (rule sorted_head_first_min [symmetric])
  finally show ?thesis
    by (simp add: num_varying_def split: list.splits)
qed

lemma auto_treatment_spec:
  assumes "[] \<notin> set fcs"
  shows "auto_treatment df fcs target = spec_treatment df fcs target"
proof (cases "binary_feats df fcs")
  case (Cons b bs)
  then show ?thesis
    by (simp add: auto_treatment_def spec_treatment_def find_filter_hd binary_feats_def)
next
  case Nil
  then have nb: "List.find (\<lambda>c. nunique (col_cells df c) = 2) fcs = None"
    by (simp add: find_filter_hd binary_feats_def)
  let ?E = "filter (\<lambda>fv. - 999 < delta df target fv) (eligible df target fcs)"
  have best: "(if cat_feats df fcs = [] then (- 999, None, None)
               else best_category df target (cat_feats df fcs))
              = best_category df target (cat_feats df fcs)"
    by (simp add: best_category_def category_pairs_def)
  show ?thesis
  proof (cases "first_max (delta df target) ?E")
    case None
    then show ?thesis
      unfolding auto_treatment_def spec_treatment_def Let_def best best_category_first_max
        Nil nb
      by (simp add: num_varying_first_max)
  next
    case (Some fv)
    then have "fv \<in> set (eligible df target fcs)"
      by (auto simp: first_max_def find_Some_iff dest: nth_mem)
    then have "fst fv \<in> set (cat_feats df fcs)"
      by (auto simp: eligible_def dest: category_pairs_feat)
    then have cne: "cat_feats df fcs \<noteq> []" and "fst fv \<in> set fcs"
      by (auto simp: cat_feats_def filter_empty_conv)
    with assms have ne: "fst fv \<noteq> []" by auto
    show ?thesis
      unfolding auto_treatment_def spec_treatment_def Let_def best best_category_first_max
        Nil nb
      using ne cne by (simp add: Some)
  qed
qed

text \<open>
  C4 (amended): without a supplied treatment, no parameter name being empty, the
  estimator selects: (1) the first parameter, in feature order, with exactly two
  distinct values; (2) else, among the categories of the categorical parameters that
  have at least two runs with a target and whose mean target exceeds the overall mean
  by more than -999, the first of those that exceed it the most, with treatment 1 for
  that category and 0 for all others; (3) else the first of the numeric parameters with
  more than one distinct value whose standard deviation is greatest, cut at its median
  over the runs with a target, 1 meaning strictly above, when more than two distinct
  values remain among those runs; and it declines when none of these applies.
\<close>

theorem treatment_selection_policy:
  "([] \<notin> set fcs \<longrightarrow> auto_treatment df fcs target = spec_treatment df fcs target)
   \<and> (\<not> is_numeric_dtype df t \<longrightarrow>
      binarize df target t (Some p)
        = Inr (map (\<lambda>r. Some (if params r t = Some p then 1 else 0)) (df_dw df target)))
   \<and> (is_numeric_dtype df t \<and> 2 < nunique (col_cells (df_dw df target) t) \<longrightarrow>
      (\<exists>m. median (map to_real (dropna (col_cells (df_dw df target) t))) = Some m
          \<and> binarize df target t pos
              = Inr (map (\<lambda>r. case params r t of None \<Rightarrow> Some 0
                                | Some v \<Rightarrow> Some (if m < to_real v then 1 else 0))
                       (df_dw df target))))"
proof (intro conjI impI)
  assume "[] \<notin> set fcs"
  then show "auto_treatment df fcs target = spec_treatment df fcs target"
    by (rule auto_treatment_spec)
next
  assume "\<not> is_numeric_dtype df t"
  then show "binarize df target t (Some p)
        = Inr (map (\<lambda>r. Some (if params r t = Some p then 1 else 0)) (df_dw df target))"
    by (rule binarize_category)
next
  assume "is_numeric_dtype df t \<and> 2 < nunique (col_cells (df_dw df target) t)"
  then show "\<exists>m. median (map to_real (dropna (col_cells (df_dw df target) t))) = Some m
          \<and> binarize df target t pos
              = Inr (map (\<lambda>r. case params r t of None \<Rightarrow> Some 0
                                | Some v \<Rightarrow> Some (if m < to_real v then 1 else 0))
                       (df_dw df target))"
    using binarize_median by blast
qed

lemma frame_modes_binary: "binary_feats frame_modes [''mode''] = []"
  by code_simp

lemma frame_modes_eligible:
  "eligible frame_modes ''llm_f1'' [''mode''] = [(''mode'', Str ''b''), (''mode'', Str ''c'')]"
  by code_simp

lemma frame_modes_pairs:
  "category_pairs frame_modes (cat_feats frame_modes [''mode''])
     = [(''mode'', Str ''a''), (''mode'', Str ''b''), (''mode'', Str ''c'')]"
  by code_simp

lemma frame_modes_delta_a: "delta frame_modes ''llm_f1'' (''mode'', Str ''a'') = 8/15"
  by code_simp

lemma frame_modes_delta_b: "delta frame_modes ''llm_f1'' (''mode'', Str ''b'') = 2/15"
  by code_simp

lemma frame_modes_delta_c: "delta frame_modes ''llm_f1'' (''mode'', Str ''c'') = - 4/15"
  by code_simp

lemma frame_modes_cat: "cat_feats frame_modes [''mode''] = [''mode'']"
  by code_simp

lemma frame_modes_best:
  "best_category frame_modes ''llm_f1'' [''mode''] = (2/15, Some ''mode'', Some (Str ''b''))"
  by code_simp

lemma frame_modes_auto:
  "auto_treatment frame_modes [''mode''] ''llm_f1'' = Some (''mode'', Some (Str ''b''))"
  by (simp add: auto_treatment_def frame_modes_binary frame_modes_cat frame_modes_best)

lemma frame_numeric_binary: "binary_feats frame_numeric [''alpha'', ''top_k''] = []"
  by code_simp

lemma frame_numeric_eligible: "eligible frame_numeric ''llm_f1'' [''alpha'', ''top_k''] = []"
  by code_simp

lemma frame_numeric_varying:
  "filter (\<lambda>c. is_numeric_dtype frame_numeric c \<and> 1 < nunique (col_cells frame_numeric c))
     [''alpha'', ''top_k''] = [''alpha'', ''top_k'']"
  by code_simp

lemma frame_numeric_var_alpha:
  "variance (map to_real (dropna (col_cells frame_numeric ''alpha''))) = 7/2"
  by code_simp

lemma frame_numeric_var_top_k:
  "variance (map to_real (dropna (col_cells frame_numeric ''top_k''))) = 350"
  by code_simp

lemma frame_numeric_num_varying:
  "num_varying frame_numeric [''alpha'', ''top_k''] = [''top_k'', ''alpha'']"
  unfolding num_varying_def frame_numeric_varying
  by (simp add: std_def frame_numeric_var_alpha frame_numeric_var_top_k)

lemma frame_numeric_nunique: "nunique (col_cells (df_dw frame_numeric ''llm_f1'') ''top_k'') = 6"
  by code_simp

lemma frame_numeric_dtype: "is_numeric_dtype frame_numeric ''top_k''"
  by code_simp

lemma frame_numeric_median:
  "median (map to_real (dropna (col_cells (df_dw frame_numeric ''llm_f1'') ''top_k''))) = Some 35"
  by code_simp

lemma frame_numeric_above:
  "map (\<lambda>r. case params r ''top_k'' of None \<Rightarrow> Some 0
                                | Some v \<Rightarrow> Some (if 35 < to_real v then 1 else 0 :: real))
                       (df_dw frame_numeric ''llm_f1'')
   = [Some 0, Some 0, Some 0, Some 1, Some 1, Some 1]"
  by code_simp

lemma frame_modes_dtype: "\<not> is_numeric_dtype frame_modes ''mode''"
  by code_simp

lemma frame_modes_indicator:
  "map (\<lambda>r. Some (if params r ''mode'' = Some (Str ''b'') then 1 else 0 :: real)) (df_dw frame_modes ''llm_f1'')
   = [Some 0, Some 1, Some 1, Some 0, Some 0, Some 0]"
  by code_simp

lemma first_max_Nil: "first_max f [] = None"
  by (simp add: first_max_def)

lemma two_binary_first:
  "List.find (\<lambda>c. nunique (col_cells frame_two_binary c) = 2) [''stream'', ''rerank'']
     = Some ''stream''"
  by code_simp

lemma two_binary_spec:
  "spec_treatment frame_two_binary [''stream'', ''rerank''] ''llm_f1'' = Some (''stream'', None)"
  by (simp only: spec_treatment_def two_binary_first option.case)

lemma modes_no_binary:
  "List.find (\<lambda>c. nunique (col_cells frame_modes c) = 2) [''mode''] = None"
  by code_simp

lemma modes_first_max:
  "first_max (delta frame_modes ''llm_f1'')
     (filter (\<lambda>fv. - 999 < delta frame_modes ''llm_f1'' fv)
        (eligible frame_modes ''llm_f1'' [''mode''])) = Some (''mode'', Str ''b'')"
  by code_simp

lemma modes_spec:
  "spec_treatment frame_modes [''mode''] ''llm_f1'' = Some (''mode'', Some (Str ''b''))"
  by (simp only: spec_treatment_def modes_no_binary modes_first_max option.case fst_conv snd_conv)

lemma numeric_no_binary:
  "List.find (\<lambda>c. nunique (col_cells frame_numeric c) = 2) [''alpha'', ''top_k''] = None"
  by code_simp

lemma numeric_no_category:
  "filter (\<lambda>fv. - 999 < delta frame_numeric ''llm_f1'' fv)
        (eligible frame_numeric ''llm_f1'' [''alpha'', ''top_k'']) = []"
  by code_simp

lemma numeric_first_max:
  "first_max (col_std frame_numeric) [''alpha'', ''top_k''] = Some ''top_k''"
  by (simp add: first_max_def col_std_def std_def frame_numeric_var_alpha
      frame_numeric_var_top_k)

lemma numeric_spec:
  "spec_treatment frame_numeric [''alpha'', ''top_k''] ''llm_f1'' = Some (''top_k'', None)"
  unfolding spec_treatment_def numeric_no_binary numeric_no_category frame_numeric_varying
    first_max_Nil numeric_first_max
  by simp

lemma constant_no_binary:
  "List.find (\<lambda>c. nunique (col_cells frame_constant c) = 2) [''mode''] = None"
  by code_simp

lemma constant_no_category:
  "filter (\<lambda>fv. - 999 < delta frame_constant ''llm_f1'' fv)
        (eligible frame_constant ''llm_f1'' [''mode'']) = []"
  by code_simp

lemma constant_no_numeric:
  "filter (\<lambda>c. is_numeric_dtype frame_constant c \<and> 1 < nunique (col_cells frame_constant c))
     [''mode''] = []"
  by code_simp

lemma constant_spec:
  "spec_treatment frame_constant [''mode''] ''llm_f1'' = None"
  unfolding spec_treatment_def constant_no_binary constant_no_category constant_no_numeric
    first_max_Nil
  by simp

theorem treatment_selection_witness:
  "auto_treatment frame_two_binary [''stream'', ''rerank''] ''llm_f1'' = Some (''stream'', None)
   \<and> auto_treatment frame_modes [''mode''] ''llm_f1'' = Some (''mode'', Some (Str ''b''))
   \<and> auto_treatment frame_numeric [''alpha'', ''top_k''] ''llm_f1'' = Some (''top_k'', None)
   \<and> auto_treatment frame_constant [''mode''] ''llm_f1'' = None
   \<and> binarize frame_modes ''llm_f1'' ''mode'' (Some (Str ''b''))
       = Inr [Some 0, Some 1, Some 1, Some 0, Some 0, Some 0]
   \<and> binarize frame_numeric ''llm_f1'' ''top_k'' None
       = Inr [Some 0, Some 0, Some 0, Some 1, Some 1, Some 1]"
proof -
  have w1: "auto_treatment frame_two_binary [''stream'', ''rerank''] ''llm_f1''
            = Some (''stream'', None)"
    using treatment_selection_policy [where fcs = "[''stream'', ''rerank'']"
        and df = frame_two_binary and target = "''llm_f1''", THEN conjunct1]
    by (simp add: two_binary_spec)
  have w2: "auto_treatment frame_modes [''mode''] ''llm_f1'' = Some (''mode'', Some (Str ''b''))"
    using treatment_selection_policy [where fcs = "[''mode'']"
        and df = frame_modes and target = "''llm_f1''", THEN conjunct1]
    by (simp add: modes_spec)
  have w3: "auto_treatment frame_numeric [''alpha'', ''top_k''] ''llm_f1'' = Some (''top_k'', None)"
    using treatment_selection_policy [where fcs = "[''alpha'', ''top_k'']"
        and df = frame_numeric and target = "''llm_f1''", THEN conjunct1]
    by (simp add: numeric_spec)
  have w4: "auto_treatment frame_constant [''mode''] ''llm_f1'' = None"
    using treatment_selection_policy [where fcs = "[''mode'']"
        and df = frame_constant and target = "''llm_f1''", THEN conjunct1]
    by (simp add: constant_spec)
  have w5: "binarize frame_modes ''llm_f1'' ''mode'' (Some (Str ''b''))
       = Inr [Some 0, Some 1, Some 1, Some 0, Some 0, Some 0]"
    using treatment_selection_policy [where df = frame_modes and t = "''mode''"
        and p = "Str ''b''" and target = "''llm_f1''", THEN conjunct2, THEN conjunct1]
      frame_modes_dtype
    by (simp add: frame_modes_indicator)
  have w6: "binarize frame_numeric ''llm_f1'' ''top_k'' None
       = Inr [Some 0, Some 0, Some 0, Some 1, Some 1, Some 1]"
    using treatment_selection_policy [where df = frame_numeric and t = "''top_k''"
        and pos = None and target = "''llm_f1''", THEN conjunct2, THEN conjunct2]
      frame_numeric_dtype
    by (simp add: frame_numeric_nunique frame_numeric_median frame_numeric_above)
  show ?thesis by (intro conjI) (rule w1 w2 w3 w4 w5 w6)+
qed

text \<open>
  Mode \<^verbatim>\<open>a\<close> has the mean target furthest above the overall mean, but a single run:
  the estimator chooses \<^verbatim>\<open>b\<close>.
\<close>

theorem best_scoring_category_not_chosen:
  "(''mode'', Str ''a'') \<in> set (category_pairs frame_modes (cat_feats frame_modes [''mode'']))
   \<and> delta frame_modes ''llm_f1'' (''mode'', Str ''b'') < delta frame_modes ''llm_f1'' (''mode'', Str ''a'')
   \<and> auto_treatment frame_modes [''mode''] ''llm_f1'' = Some (''mode'', Some (Str ''b''))"
  by (simp add: frame_modes_pairs frame_modes_delta_a frame_modes_delta_b frame_modes_auto)

section \<open>Properties of the significance test\<close>

lemma map2_nth:
  assumes "length xs = length ys"
  shows "map2 f xs ys = map (\<lambda>i. f (xs ! i) (ys ! i)) [0..<length xs]"
  using assms by (intro nth_equalityI) simp_all

lemma dot_nth:
  assumes "length row = length coef"
  shows "dot row coef = sum_list (map (\<lambda>j. row ! j * coef ! j) [0..<length coef])"
  using assms by (simp add: dot_def map2_nth)

lemma residuals_nth:
  assumes "length X = length y" and "\<forall>row \<in> set X. length row = length coef"
  shows "residuals X y coef intercept
         = map (\<lambda>i. y ! i - predicted X coef intercept i) [0..<length y]"
proof -
  have "length y = length (map (\<lambda>row. dot row coef + intercept) X)"
    using assms(1) by simp
  from map2_nth [OF this, of "(-)"]
  have "residuals X y coef intercept
        = map (\<lambda>i. y ! i - map (\<lambda>row. dot row coef + intercept) X ! i) [0..<length y]"
    by (simp add: residuals_def)
  also have "\<dots> = map (\<lambda>i. y ! i - predicted X coef intercept i) [0..<length y]"
  proof (rule map_cong [OF refl])
    fix i assume "i \<in> set [0..<length y]"
    then have i: "i < length X" using assms(1) by simp
    then have "X ! i \<in> set X" by simp
    with assms(2) have "length (X ! i) = length coef" by blast
    then show "y ! i - map (\<lambda>row. dot row coef + intercept) X ! i
             = y ! i - predicted X coef intercept i"
      using i by (simp add: predicted_def dot_nth)
  qed
  finally show ?thesis .
qed

lemma dot_self: "dot xs xs = sum_list (map (\<lambda>x. x\<^sup>2) xs)"
proof -
  have "map2 (*) xs xs = map (\<lambda>x. x\<^sup>2) xs"
    by (induction xs) (simp_all add: power2_eq_square)
  then show ?thesis by (simp add: dot_def)
qed

lemma mse_nth:
  assumes "length X = length y" and "\<forall>row \<in> set X. length row = length coef"
  shows "dot (residuals X y coef intercept) (residuals X y coef intercept)
           / real_of_int (max (int (length y) - int (length coef) - 1) 1)
         = mean_squared_error X y coef intercept"
  by (simp add: dot_self residuals_nth [OF assms] mean_squared_error_def comp_def)

text \<open>
  C6: for a table with one target per row and one coefficient per column, and a matrix
  inversion that is exact on \<^verbatim>\<open>X.T @ X\<close> (it fails exactly when that matrix has no
  inverse, and what it returns is an inverse). If \<^verbatim>\<open>X.T @ X\<close> is singular, the standard
  error is 0 and the p-value 1. Otherwise the standard error is the square root of the
  mean squared error times the treatment's diagonal entry of the inverse, and the
  p-value is twice the survival function of the t distribution at the absolute value
  of coefficient over standard error (0 when the standard error is not positive), with
  rows minus columns minus 1 degrees of freedom.
\<close>

theorem singular_or_t_test:
  assumes "length X = length y" and "\<forall>row \<in> set X. length row = length coef"
    and "(linalg_inv (gram (length coef) X) = None)
         = singular (length coef) (gram (length coef) X)"
    and "\<forall>C. linalg_inv (gram (length coef) X) = Some C
             \<longrightarrow> is_inverse (length coef) (gram (length coef) X) C"
  shows "(singular (length coef) (gram (length coef) X) \<longrightarrow>
            ols_significance linalg_inv t_sf X y coef intercept t_idx = (0, 1))
       \<and> (\<not> singular (length coef) (gram (length coef) X) \<longrightarrow>
            (\<exists>C se. is_inverse (length coef) (gram (length coef) X) C
               \<and> se = sqrt (mean_squared_error X y coef intercept * (C ! t_idx ! t_idx))
               \<and> ols_significance linalg_inv t_sf X y coef intercept t_idx
                   = (se, 2 * t_sf \<bar>if 0 < se then coef ! t_idx / se else 0\<bar>
                            (int (length X) - int (length coef) - 1))))"
proof (intro conjI impI)
  assume "singular (length coef) (gram (length coef) X)"
  with assms(3) have "linalg_inv (gram (length coef) X) = None" by simp
  then show "ols_significance linalg_inv t_sf X y coef intercept t_idx = (0, 1)"
    by (simp add: ols_significance_def Let_def)
next
  assume "\<not> singular (length coef) (gram (length coef) X)"
  with assms(3) obtain C where C: "linalg_inv (gram (length coef) X) = Some C"
    by auto
  with assms(4) have inv: "is_inverse (length coef) (gram (length coef) X) C" by blast
  define se where "se = sqrt (mean_squared_error X y coef intercept * (C ! t_idx ! t_idx))"
  have "ols_significance linalg_inv t_sf X y coef intercept t_idx
          = (se, 2 * t_sf \<bar>if 0 < se then coef ! t_idx / se else 0\<bar>
                   (int (length X) - int (length coef) - 1))"
    unfolding ols_significance_def Let_def C option.case mse_nth [OF assms(1,2)]
      t_statistic_def se_def assms(1) by (rule refl)
  with inv se_def show "\<exists>C se. is_inverse (length coef) (gram (length coef) X) C
               \<and> se = sqrt (mean_squared_error X y coef intercept * (C ! t_idx ! t_idx))
               \<and> ols_significance linalg_inv t_sf X y coef intercept t_idx
                   = (se, 2 * t_sf \<bar>if 0 < se then coef ! t_idx / se else 0\<bar>
                            (int (length X) - int (length coef) - 1))"
    by blast
qed

lemma square_1: "square (Suc 0) C \<Longrightarrow> \<exists>c. C = [[c]]"
proof -
  assume "square (Suc 0) C"
  then have l: "length C = Suc 0" and r: "list_all (\<lambda>row. length row = Suc 0) C"
    by (simp_all add: square_def)
  from l obtain row where C: "C = [row]" by (auto simp: length_Suc_conv)
  with r have "length row = Suc 0" by simp
  then obtain c where "row = [c]" by (auto simp: length_Suc_conv)
  with C show ?thesis by blast
qed

lemma is_inverse_1x1:
  assumes "is_inverse (Suc 0) [[a]] C"
  shows "a \<noteq> 0 \<and> C = [[1 / a]]"
proof -
  from assms have "square (Suc 0) C" by (simp add: is_inverse_def)
  then obtain c where C: "C = [[c]]" using square_1 by blast
  from assms have "mat_mul (Suc 0) [[a]] C = identity (Suc 0)" by (simp add: is_inverse_def)
  then have "a * c = 1" by (simp add: C mat_mul_def identity_def)
  then have ac: "a * c = 1" .
  then have a: "a \<noteq> 0" by auto
  with ac have "c = 1 / a" by (simp add: field_simps)
  with a C show ?thesis by simp
qed

lemma singular_zero: "singular (Suc 0) [[0]]"
  unfolding singular_def using is_inverse_1x1 [of 0] by blast

lemma inverse_of_14: "is_inverse (Suc 0) [[14]] [[1 / 14]]"
  by (simp add: is_inverse_def square_def mat_mul_def identity_def)

lemma gram_singular: "gram (Suc 0) [[0], [0], [0]] = [[0]]"
  by code_simp

lemma gram_regular: "gram (Suc 0) [[1], [2], [3]] = [[14]]"
  by code_simp

lemma example_mse: "mean_squared_error [[1], [2], [3]] [1, 2, 4] [3 / 2] (- (2 / 3)) = 1 / 6"
  by code_simp

theorem singular_or_t_test_witness:
  "singular (length [0 :: real]) (gram (length [0 :: real]) [[0], [0], [0]])
   \<and> ols_significance inv_1x1 example_t_sf [[0], [0], [0]] [1, 2, 3] [0] 2 0 = (0, 1)
   \<and> \<not> singular (length [3 / 2 :: real]) (gram (length [3 / 2 :: real]) [[1], [2], [3]])
   \<and> ols_significance inv_1x1 example_t_sf [[1], [2], [3]] [1, 2, 4] [3 / 2] (- 2 / 3) 0
       = (sqrt (1 / 84), 2 * example_t_sf \<bar>(3 / 2) / sqrt (1 / 84)\<bar> 1)"
proof -
  have s0: "singular (length [0 :: real]) (gram (length [0 :: real]) [[0], [0], [0]])"
    by (simp add: gram_singular singular_zero)
  have h0: "(inv_1x1 (gram (length [0 :: real]) [[0], [0], [0]]) = None)
         = singular (length [0 :: real]) (gram (length [0 :: real]) [[0], [0], [0]])"
    by (simp add: gram_singular singular_zero)
  have i0: "\<forall>C. inv_1x1 (gram (length [0 :: real]) [[0], [0], [0]]) = Some C
             \<longrightarrow> is_inverse (length [0 :: real]) (gram (length [0 :: real]) [[0], [0], [0]]) C"
    by (simp add: gram_singular)
  have l0: "length [[0], [0], [0 :: real]] = length [1, 2, 3 :: real]" by simp
  have r0: "\<forall>row \<in> set [[0], [0], [0 :: real]]. length row = length [0 :: real]" by simp
  from singular_or_t_test [where X = "[[0], [0], [0]]" and y = "[1, 2, 3]" and coef = "[0]"
      and linalg_inv = inv_1x1 and t_sf = example_t_sf and intercept = 2 and t_idx = 0,
      OF l0 r0 h0 i0, THEN conjunct1] s0
  have w0: "ols_significance inv_1x1 example_t_sf [[0], [0], [0]] [1, 2, 3] [0] 2 0 = (0, 1)"
    by blast
  have s1: "\<not> singular (length [3 / 2 :: real]) (gram (length [3 / 2 :: real]) [[1], [2], [3]])"
    using inverse_of_14 by (auto simp: gram_regular singular_def)
  have h1: "(inv_1x1 (gram (length [3 / 2 :: real]) [[1], [2], [3]]) = None)
         = singular (length [3 / 2 :: real]) (gram (length [3 / 2 :: real]) [[1], [2], [3]])"
    using s1 by (simp add: gram_regular)
  have i1: "\<forall>C. inv_1x1 (gram (length [3 / 2 :: real]) [[1], [2], [3]]) = Some C
             \<longrightarrow> is_inverse (length [3 / 2 :: real]) (gram (length [3 / 2 :: real]) [[1], [2], [3]]) C"
    using inverse_of_14 by (simp add: gram_regular)
  have l1: "length [[1], [2], [3 :: real]] = length [1, 2, 4 :: real]" by simp
  have r1: "\<forall>row \<in> set [[1], [2], [3 :: real]]. length row = length [3 / 2 :: real]" by simp
  from singular_or_t_test [where X = "[[1], [2], [3]]" and y = "[1, 2, 4]" and coef = "[3 / 2]"
      and linalg_inv = inv_1x1 and t_sf = example_t_sf and intercept = "- 2 / 3" and t_idx = 0,
      OF l1 r1 h1 i1, THEN conjunct2] s1
  obtain C se where C: "is_inverse (length [3 / 2 :: real]) (gram (length [3 / 2 :: real]) [[1], [2], [3]]) C"
    and se: "se = sqrt (mean_squared_error [[1], [2], [3]] [1, 2, 4] [3 / 2] (- 2 / 3) * (C ! 0 ! 0))"
    and r: "ols_significance inv_1x1 example_t_sf [[1], [2], [3]] [1, 2, 4] [3 / 2] (- 2 / 3) 0
            = (se, 2 * example_t_sf \<bar>if 0 < se then [3 / 2] ! 0 / se else 0\<bar>
                 (int (length [[1], [2], [3 :: real]]) - int (length [3 / 2 :: real]) - 1))"
    by blast
  from C have "C = [[1 / 14]]"
    using is_inverse_1x1 [of 14 C] by (simp add: gram_regular)
  with se have se': "se = sqrt (1 / 84)" by (simp add: example_mse)
  have pos: "0 < sqrt (1 / 84 :: real)" by simp
  have w1: "ols_significance inv_1x1 example_t_sf [[1], [2], [3]] [1, 2, 4] [3 / 2] (- 2 / 3) 0
       = (sqrt (1 / 84), 2 * example_t_sf \<bar>(3 / 2) / sqrt (1 / 84)\<bar> 1)"
    using r pos unfolding se' by simp
  show ?thesis by (intro conjI) (rule s0 w0 s1 w1)+
qed

end
